theory Spec2Isabelle
  imports Complex_Main
begin

section \<open>Numbers, vectors and the three.js helpers the sources call\<close>

text \<open>
  The sources are TypeScript; every number is a JavaScript \<open>number\<close>.  The embedding
  reads them as mathematical reals (\<^typ>\<open>real\<close>): rounding, NaN and infinities are
  outside the model.  \<open>Math.random()\<close> is a source of values in \<open>[0, 1)\<close>; each call
  site takes the value it draws as an explicit argument, in the order the source
  draws them.
\<close>

text \<open>\<open>THREE.Vector3\<close>: three numbers \<open>x\<close>, \<open>y\<close>, \<open>z\<close>.\<close>

datatype vec3 = Vector3 (vx: real) (vy: real) (vz: real)

text \<open>\<open>THREE.Euler\<close> (default order XYZ): three angles.\<close>

datatype euler = Euler (ex: real) (ey: real) (ez: real)

text \<open>
  \<open>THREE.MathUtils.lerp(x, y, t)\<close> of the three.js library: \<open>(1 - t) * x + t * y\<close>.
  The interpolation factor is used as it is given; the library does not clamp it.
\<close>

definition lerp :: "real \<Rightarrow> real \<Rightarrow> real \<Rightarrow> real" where
  "lerp x y t = (1 - t) * x + t * y"

text \<open>\<open>THREE.MathUtils.clamp(value, min, max)\<close>: \<open>Math.max(min, Math.min(max, value))\<close>.\<close>

definition clamp :: "real \<Rightarrow> real \<Rightarrow> real \<Rightarrow> real" where
  "clamp v lo hi = max lo (min hi v)"

text \<open>\<open>Vector3.lerpVectors(v1, v2, alpha)\<close>: \<open>v1 + (v2 - v1) * alpha\<close>, per component.\<close>

definition lerpVectors :: "vec3 \<Rightarrow> vec3 \<Rightarrow> real \<Rightarrow> vec3" where
  "lerpVectors v1 v2 alpha =
     Vector3 (vx v1 + (vx v2 - vx v1) * alpha)
             (vy v1 + (vy v2 - vy v1) * alpha)
             (vz v1 + (vz v2 - vz v1) * alpha)"

text \<open>\<open>Vector3.lerp(v, alpha)\<close>: \<open>this += (v - this) * alpha\<close>, per component.\<close>

definition vlerp :: "vec3 \<Rightarrow> vec3 \<Rightarrow> real \<Rightarrow> vec3" where
  "vlerp this v alpha =
     Vector3 (vx this + (vx v - vx this) * alpha)
             (vy this + (vy v - vy this) * alpha)
             (vz this + (vz v - vz this) * alpha)"

definition vadd :: "vec3 \<Rightarrow> vec3 \<Rightarrow> vec3" where
  "vadd a b = Vector3 (vx a + vx b) (vy a + vy b) (vz a + vz b)"

definition multiplyScalar :: "vec3 \<Rightarrow> real \<Rightarrow> vec3" where
  "multiplyScalar a s = Vector3 (vx a * s) (vy a * s) (vz a * s)"

text \<open>\<open>Vector3.length()\<close>: the Euclidean norm.\<close>

definition vlength :: "vec3 \<Rightarrow> real" where
  "vlength a = sqrt (vx a * vx a + vy a * vy a + vz a * vz a)"

text \<open>
  \<open>Vector3.normalize()\<close>: \<open>this.divideScalar(this.length() || 1)\<close>; the zero vector
  is divided by 1 and stays zero.
\<close>

definition normalize :: "vec3 \<Rightarrow> vec3" where
  "normalize a =
     (let l = (if vlength a = 0 then 1 else vlength a)
      in Vector3 (vx a / l) (vy a / l) (vz a / l))"

text \<open>\<open>Vector3.distanceTo(v)\<close>: the Euclidean distance.\<close>

definition distanceTo :: "vec3 \<Rightarrow> vec3 \<Rightarrow> real" where
  "distanceTo a b =
     sqrt ((vx a - vx b) * (vx a - vx b) + (vy a - vy b) * (vy a - vy b)
           + (vz a - vz b) * (vz a - vz b))"

section \<open>utils/math.ts: the point generators\<close>

definition TREE_HEIGHT :: real where "TREE_HEIGHT = 12"
definition TREE_RADIUS_BOTTOM :: real where "TREE_RADIUS_BOTTOM = 5.5"
definition SCATTER_RADIUS :: real where "SCATTER_RADIUS = 15"

text \<open>
  \<open>getScatterPoint(radius)\<close>.  The three \<open>Math.random()\<close> values are \<open>u\<close>, \<open>v\<close> and
  \<open>w\<close> (the one under \<open>Math.cbrt\<close>), in the order the source draws them.
\<close>

definition getScatterPoint :: "real \<Rightarrow> real \<Rightarrow> real \<Rightarrow> real \<Rightarrow> vec3" where
  "getScatterPoint radius u v w =
     (let theta = 2 * pi * u;
          phi = arccos (2 * v - 1);
          r = root 3 w * radius
      in Vector3 (r * sin phi * cos theta) (r * sin phi * sin theta) (r * cos phi))"

text \<open>
  \<open>getTreePoint(height, radius, yOffset)\<close>.  The draws are \<open>h\<close> (height fraction),
  \<open>s\<close> (under \<open>Math.sqrt\<close>) and \<open>a\<close> (angle fraction).
\<close>

definition getTreePoint :: "real \<Rightarrow> real \<Rightarrow> real \<Rightarrow> real \<Rightarrow> real \<Rightarrow> real \<Rightarrow> vec3" where
  "getTreePoint height radius yOffset h s a =
     (let y = h * height + yOffset;
          maxR = radius * (1 - h);
          r = maxR * (0.2 + 0.8 * sqrt s);
          theta = a * pi * 2
      in Vector3 (r * cos theta) y (r * sin theta))"

definition randomRange :: "real \<Rightarrow> real \<Rightarrow> real \<Rightarrow> real" where
  "randomRange mn mx rnd = rnd * (mx - mn) + mn"


section \<open>types.ts\<close>

datatype TreeState = SCATTERED | TREE_SHAPE | FOCUS

record DualPosition =
  tree :: vec3
  scatter :: vec3
  rotation :: euler
  scale :: real
  speed :: real

datatype OrnamentType = SPHERE | BOX

text \<open>
  \<open>OrnamentData extends DualPosition\<close>.  The field \<open>type\<close> is \<open>otype\<close> here; a
  \<open>THREE.Color\<close> is kept as its hex string, and \<open>None\<close> stands for \<open>undefined\<close>.
\<close>

record OrnamentData = DualPosition +
  otype :: OrnamentType
  color :: "string option"

text \<open>\<open>UserPhotoData extends DualPosition\<close>; the field \<open>id\<close> is \<open>photoId\<close> here.\<close>

record UserPhotoData = DualPosition +
  photoId :: string
  url :: string

section \<open>JavaScript values the sources build\<close>

text \<open>Reading \<open>xs[i]\<close> from a JavaScript array: \<open>undefined\<close> out of range.\<close>

definition js_index :: "'a list \<Rightarrow> int \<Rightarrow> 'a option" where
  "js_index xs i = (if 0 \<le> i \<and> i < int (length xs) then Some (xs ! nat i) else None)"

text \<open>The decimal text a template literal gives an integer-valued number.\<close>

fun string_of_nat :: "nat \<Rightarrow> string" where
  "string_of_nat n =
     (if n < 10 then [''0123456789'' ! n]
      else string_of_nat (n div 10) @ [''0123456789'' ! (n mod 10)])"

declare string_of_nat.simps [simp del]

definition string_of_int :: "int \<Rightarrow> string" where
  "string_of_int i = (if i < 0 then ''-'' @ string_of_nat (nat (- i)) else string_of_nat (nat i))"

section \<open>components/Foliage.tsx\<close>

text \<open>The two uniforms of the shader material that the frame callback writes.\<close>

record Foliage_uniforms =
  uTime :: real
  uMorphFactor :: real

definition FoliageShaderMaterial :: Foliage_uniforms where
  "FoliageShaderMaterial = \<lparr> uTime = 0, uMorphFactor = 0 \<rparr>"

text \<open>
  The \<open>useFrame\<close> callback of \<open>Foliage\<close>; \<open>shaderRef\<close> is \<open>None\<close> while
  \<open>shaderRef.current\<close> is null.
\<close>

definition Foliage_useFrame ::
  "TreeState \<Rightarrow> real \<Rightarrow> real \<Rightarrow> Foliage_uniforms option \<Rightarrow> Foliage_uniforms option" where
  "Foliage_useFrame state elapsedTime delta shaderRef =
     (case shaderRef of
        None \<Rightarrow> None
      | Some u \<Rightarrow>
          (let targetFactor = (if state = TREE_SHAPE then 1.0 else 0.0);
               currentFactor = uMorphFactor u;
               speed = 2.0
           in Some (u\<lparr> uTime := elapsedTime,
                       uMorphFactor := lerp currentFactor targetFactor (speed * delta) \<rparr>)))"

text \<open>The morph factor over a run of frames, each given as (elapsed time, delta).\<close>

fun Foliage_run ::
  "TreeState \<Rightarrow> (real \<times> real) list \<Rightarrow> Foliage_uniforms option \<Rightarrow> Foliage_uniforms option" where
  "Foliage_run state [] shaderRef = shaderRef"
| "Foliage_run state ((time, delta) # frames) shaderRef =
     Foliage_run state frames (Foliage_useFrame state time delta shaderRef)"

section \<open>Ornaments (the component that draws the four instanced ornament groups)\<close>

text \<open>
  What \<open>tempObj.updateMatrix()\<close> composes and \<open>setMatrixAt\<close> stores for one instance:
  the position, the Euler rotation and the uniform scale.
\<close>

record transform =
  position :: vec3
  rot :: euler
  scl :: real

text \<open>
  An instanced mesh: \<open>userData.morphValue\<close> (\<open>None\<close> while undefined) and the
  per-instance matrices.
\<close>

record mesh =
  morphValue :: "real option"
  instanceMatrix :: "transform list"

text \<open>
  One iteration of the loop of \<open>generateOrnamentData\<close>; it draws eleven random
  values, \<open>rnd k\<close> to \<open>rnd (k + 10)\<close>, in the order of the source.
\<close>

definition ornamentItem ::
  "OrnamentType \<Rightarrow> string list \<Rightarrow> (nat \<Rightarrow> real) \<Rightarrow> nat \<Rightarrow> OrnamentData" where
  "ornamentItem type colorPalette rnd k =
     (let treePos0 = getTreePoint 12 5.0 (- 6) (rnd k) (rnd (k + 1)) (rnd (k + 2));
          radialDir = normalize (Vector3 (vx treePos0) 0 (vz treePos0));
          treePos = vadd treePos0 (multiplyScalar radialDir 0.4);
          scatterPos = getScatterPoint 20 (rnd (k + 3)) (rnd (k + 4)) (rnd (k + 5))
      in \<lparr> tree = treePos,
           scatter = scatterPos,
           rotation = Euler (rnd (k + 6) * pi) (rnd (k + 7) * pi) 0,
           scale = randomRange 0.8 1.5 (rnd (k + 8)),
           speed = randomRange 0.5 2.0 (rnd (k + 9)),
           otype = type,
           color = js_index colorPalette \<lfloor>rnd (k + 10) * real (length colorPalette)\<rfloor> \<rparr>)"

definition generateOrnamentData ::
  "nat \<Rightarrow> OrnamentType \<Rightarrow> string list \<Rightarrow> (nat \<Rightarrow> real) \<Rightarrow> nat \<Rightarrow> OrnamentData list" where
  "generateOrnamentData count type colorPalette rnd k =
     map (\<lambda>i. ornamentItem type colorPalette rnd (k + 11 * i)) [0..<count]"

text \<open>The palette of \<open>CONFIG.colors\<close>.\<close>

definition emerald :: string where "emerald = ''#023E28''"
definition ruby :: string where "ruby = ''#852736''"
definition gold :: string where "gold = ''#E2C99E''"
definition blue :: string where "blue = ''#414B9E''"
definition purple :: string where "purple = ''#AA74A0''"

record Ornaments_data =
  goldData :: "OrnamentData list"
  ceramicData :: "OrnamentData list"
  satinData :: "OrnamentData list"
  boxData :: "OrnamentData list"

text \<open>
  The four \<open>useMemo\<close> blocks of \<open>Ornaments\<close>, run in order on one stream of random
  draws: \<open>Math.floor(count * 0.3)\<close> gold spheres, \<open>Math.floor(count * 0.4)\<close> ceramic,
  \<open>Math.floor(count * 0.3)\<close> satin and \<open>Math.floor(count * 0.15)\<close> boxes.
\<close>

definition Ornaments_useMemo :: "nat \<Rightarrow> (nat \<Rightarrow> real) \<Rightarrow> Ornaments_data" where
  "Ornaments_useMemo count rnd =
     (let ng = nat \<lfloor>real count * 0.3\<rfloor>;
          nc = nat \<lfloor>real count * 0.4\<rfloor>;
          ns = nat \<lfloor>real count * 0.3\<rfloor>;
          nb = nat \<lfloor>real count * 0.15\<rfloor>
      in \<lparr> goldData = generateOrnamentData ng SPHERE [gold] rnd 0,
           ceramicData = generateOrnamentData nc SPHERE [emerald, ruby] rnd (11 * ng),
           satinData = generateOrnamentData ns SPHERE [blue, purple] rnd (11 * (ng + nc)),
           boxData = generateOrnamentData nb BOX [gold, ruby, blue] rnd (11 * (ng + nc + ns)) \<rparr>)"

text \<open>The body of the loop of \<open>updateInstances\<close> for instance \<open>i\<close>.\<close>

definition instanceTransform :: "OrnamentData \<Rightarrow> nat \<Rightarrow> real \<Rightarrow> real \<Rightarrow> transform" where
  "instanceTransform item i t time =
     (let p0 = lerpVectors (scatter item) (tree item) t;
          floatAmp = (1 - t) * 0.5;
          p = Vector3 (vx p0 + cos (time * speed item * 0.5 + real i) * floatAmp)
                      (vy p0 + sin (time * speed item + real i) * floatAmp)
                      (vz p0);
          rotX = ex (rotation item) + (time * 0.2 * (1 - t));
          rotY = ey (rotation item) + (time * 0.5 * (1 - t))
      in \<lparr> position = p,
           rot = Euler rotX rotY (ez (rotation item)),
           scl = scale item * (t * 0.5 + 0.5) \<rparr>)"

text \<open>
  \<open>updateInstances(mesh, data, targetMorph, time, delta)\<close>.  A null mesh returns at
  once; an undefined \<open>morphValue\<close> is set to 0 before the step.  \<open>setMatrixAt\<close> writes
  slot \<open>i\<close> of the instance buffer (a write outside the buffer is dropped).
\<close>

definition updateInstances ::
  "mesh option \<Rightarrow> OrnamentData list \<Rightarrow> real \<Rightarrow> real \<Rightarrow> real \<Rightarrow> mesh option" where
  "updateInstances meshRef data targetMorph time delta =
     (case meshRef of
        None \<Rightarrow> None
      | Some m \<Rightarrow>
          (let m0 = (case morphValue m of None \<Rightarrow> 0 | Some v \<Rightarrow> v);
               speed = 1.5;
               t = lerp m0 targetMorph (speed * delta)
           in Some (m\<lparr> morphValue := Some t,
                       instanceMatrix :=
                         fold (\<lambda>i ms. ms[i := instanceTransform (data ! i) i t time])
                              [0..<length data] (instanceMatrix m) \<rparr>)))"

record Ornaments_refs =
  goldRef :: "mesh option"
  ceramicRef :: "mesh option"
  satinRef :: "mesh option"
  boxesRef :: "mesh option"

text \<open>The \<open>useFrame\<close> callback of \<open>Ornaments\<close>.\<close>

definition Ornaments_useFrame ::
  "Ornaments_data \<Rightarrow> TreeState \<Rightarrow> real \<Rightarrow> real \<Rightarrow> Ornaments_refs \<Rightarrow> Ornaments_refs" where
  "Ornaments_useFrame d state time delta refs =
     (let targetMorph = (if state = TREE_SHAPE then 1 else 0)
      in \<lparr> goldRef = updateInstances (goldRef refs) (goldData d) targetMorph time delta,
           ceramicRef = updateInstances (ceramicRef refs) (ceramicData d) targetMorph time delta,
           satinRef = updateInstances (satinRef refs) (satinData d) targetMorph time delta,
           boxesRef = updateInstances (boxesRef refs) (boxData d) targetMorph time delta \<rparr>)"

fun Ornaments_run ::
  "Ornaments_data \<Rightarrow> TreeState \<Rightarrow> (real \<times> real) list \<Rightarrow> Ornaments_refs \<Rightarrow> Ornaments_refs" where
  "Ornaments_run d state [] refs = refs"
| "Ornaments_run d state ((time, delta) # frames) refs =
     Ornaments_run d state frames (Ornaments_useFrame d state time delta refs)"

text \<open>
  The meshes as React mounts them: one instance slot per data item
  (\<open>args={[undefined, undefined, data.length]}\<close>), \<open>userData\<close> empty.  The slots start
  as the identity matrix.
\<close>

definition identityTransform :: transform where
  "identityTransform = \<lparr> position = Vector3 0 0 0, rot = Euler 0 0 0, scl = 1 \<rparr>"

definition newMesh :: "nat \<Rightarrow> mesh" where
  "newMesh n = \<lparr> morphValue = None, instanceMatrix = replicate n identityTransform \<rparr>"

definition Ornaments_mount :: "Ornaments_data \<Rightarrow> Ornaments_refs" where
  "Ornaments_mount d =
     \<lparr> goldRef = Some (newMesh (length (goldData d))),
       ceramicRef = Some (newMesh (length (ceramicData d))),
       satinRef = Some (newMesh (length (satinData d))),
       boxesRef = Some (newMesh (length (boxData d))) \<rparr>"

section \<open>components/Experience.tsx: Gifts\<close>

text \<open>
  One iteration of the loop in the \<open>useMemo\<close> of \<open>Gifts\<close>, drawing from \<open>rnd k\<close> on.
  The colour choice draws once more when \<open>rand\<close> is 0.85 or above, so the item comes
  with the index of the next unused draw.  The palette is the one of \<open>Ornaments\<close>.
\<close>

definition giftItem :: "(nat \<Rightarrow> real) \<Rightarrow> nat \<Rightarrow> OrnamentData \<times> nat" where
  "giftItem rnd k =
     (let bottomY = - TREE_HEIGHT / 2;
          scatterPos = getScatterPoint 20 (rnd k) (rnd (k + 1)) (rnd (k + 2));
          r = randomRange 2 (TREE_RADIUS_BOTTOM + 2) (rnd (k + 3));
          theta = rnd (k + 4) * pi * 2;
          x = r * cos theta;
          z = r * sin theta;
          y = bottomY + rnd (k + 5) * 2;
          treePos = Vector3 x y z;
          rand = rnd (k + 6);
          (selectedColor, k1) =
            (if rand < 0.40 then (gold, k + 7)
             else if rand < 0.75 then (ruby, k + 7)
             else if rand < 0.85 then (emerald, k + 7)
             else ((if rnd (k + 7) > 0.5 then blue else purple), k + 8))
      in (\<lparr> tree = treePos,
            scatter = scatterPos,
            rotation = Euler 0 (rnd k1 * pi * 2) 0,
            scale = randomRange 1.0 1.5 (rnd (k1 + 1)),
            speed = randomRange 0.5 1.5 (rnd (k1 + 2)),
            otype = BOX,
            color = Some selectedColor \<rparr>,
          k1 + 3))"

text \<open>The loop itself, and the data of the 40 gifts.\<close>

fun Gifts_loop :: "nat \<Rightarrow> (nat \<Rightarrow> real) \<Rightarrow> nat \<Rightarrow> OrnamentData list" where
  "Gifts_loop 0 rnd k = []"
| "Gifts_loop (Suc n) rnd k = (let (item, k') = giftItem rnd k in item # Gifts_loop n rnd k')"

definition Gifts_useMemo :: "(nat \<Rightarrow> real) \<Rightarrow> OrnamentData list" where
  "Gifts_useMemo rnd = Gifts_loop 40 rnd 0"

definition giftTransform :: "OrnamentData \<Rightarrow> nat \<Rightarrow> real \<Rightarrow> real \<Rightarrow> transform" where
  "giftTransform item i t time =
     (let p0 = lerpVectors (scatter item) (tree item) t;
          p = (if t < 0.99
               then Vector3 (vx p0) (vy p0 + sin (time * speed item + real i) * 0.2 * (1 - t)) (vz p0)
               else p0);
          rotY = ey (rotation item) + (time * 0.5 * (1 - t))
      in \<lparr> position = p,
           rot = Euler (ex (rotation item) * (1 - t)) rotY (ez (rotation item) * (1 - t)),
           scl = scale item \<rparr>)"

text \<open>The \<open>useFrame\<close> callback of \<open>Gifts\<close>.\<close>

definition Gifts_useFrame ::
  "OrnamentData list \<Rightarrow> TreeState \<Rightarrow> real \<Rightarrow> real \<Rightarrow> mesh option \<Rightarrow> mesh option" where
  "Gifts_useFrame data state time delta meshRef =
     (case meshRef of
        None \<Rightarrow> None
      | Some m \<Rightarrow>
          (let targetMorph = (if state = TREE_SHAPE then 1 else 0);
               m0 = (case morphValue m of None \<Rightarrow> 0 | Some v \<Rightarrow> v);
               t = lerp m0 targetMorph (1.5 * delta)
           in Some (m\<lparr> morphValue := Some t,
                       instanceMatrix :=
                         fold (\<lambda>i ms. ms[i := giftTransform (data ! i) i t time])
                              [0..<length data] (instanceMatrix m) \<rparr>)))"

text \<open>The gifts mesh over a run of frames, each given as (elapsed time, delta).\<close>

fun Gifts_run ::
  "OrnamentData list \<Rightarrow> TreeState \<Rightarrow> (real \<times> real) list \<Rightarrow> mesh option \<Rightarrow> mesh option" where
  "Gifts_run data state [] meshRef = meshRef"
| "Gifts_run data state ((time, delta) # frames) meshRef =
     Gifts_run data state frames (Gifts_useFrame data state time delta meshRef)"

section \<open>UserPhotos and PhotoFrame\<close>

text \<open>
  \<open>THREE.Quaternion\<close> and the three.js operations on it that \<open>PhotoFrame\<close> calls:
  \<open>setFromEuler\<close> (order XYZ), \<open>invert\<close> (the conjugate; the library assumes unit
  length) and \<open>premultiply\<close>.  \<open>Quaternion.slerp\<close> is taken as a parameter of the
  frame callback.
\<close>

datatype quat = Quaternion (qx: real) (qy: real) (qz: real) (qw: real)

definition setFromEuler :: "euler \<Rightarrow> quat" where
  "setFromEuler e =
     (let c1 = cos (ex e / 2); c2 = cos (ey e / 2); c3 = cos (ez e / 2);
          s1 = sin (ex e / 2); s2 = sin (ey e / 2); s3 = sin (ez e / 2)
      in Quaternion (s1 * c2 * c3 + c1 * s2 * s3)
                    (c1 * s2 * c3 - s1 * c2 * s3)
                    (c1 * c2 * s3 + s1 * s2 * c3)
                    (c1 * c2 * c3 - s1 * s2 * s3))"

definition invert :: "quat \<Rightarrow> quat" where
  "invert q = Quaternion (- qx q) (- qy q) (- qz q) (qw q)"

definition multiplyQuaternions :: "quat \<Rightarrow> quat \<Rightarrow> quat" where
  "multiplyQuaternions a b =
     Quaternion (qx a * qw b + qw a * qx b + qy a * qz b - qz a * qy b)
                (qy a * qw b + qw a * qy b + qz a * qx b - qx a * qz b)
                (qz a * qw b + qw a * qz b + qx a * qy b - qy a * qx b)
                (qw a * qw b - qx a * qx b - qy a * qy b - qz a * qz b)"

definition premultiply :: "quat \<Rightarrow> quat \<Rightarrow> quat" where
  "premultiply this q = multiplyQuaternions q this"

text \<open>
  What the frame callback reads from the renderer: the camera's position, world
  direction and quaternion, and the parent of the photo's group (\<open>None\<close> when it has
  none) with its \<open>worldToLocal\<close> map and world quaternion.
\<close>

record parent_env =
  worldToLocal :: "vec3 \<Rightarrow> vec3"
  getWorldQuaternion :: quat

record camera_env =
  cameraPosition :: vec3
  getWorldDirection :: vec3
  cameraQuaternion :: quat
  parent :: "parent_env option"

text \<open>The \<open>THREE.Group\<close> of one photo: local position, quaternion and scale.\<close>

record photo_group =
  gposition :: vec3
  gquaternion :: quat
  gscale :: vec3

text \<open>
  The mutable state of one \<open>PhotoFrame\<close>: its group (\<open>None\<close> while
  \<open>groupRef.current\<close> is null), the \<open>focusDistance\<close> ref and whether the wheel
  listener of the zoom effect is attached.
\<close>

record PhotoFrame_state =
  groupRef :: "photo_group option"
  focusDistance :: real
  wheelListener :: bool

definition PhotoFrame_mount :: PhotoFrame_state where
  "PhotoFrame_mount =
     \<lparr> groupRef = Some \<lparr> gposition = Vector3 0 0 0, gquaternion = Quaternion 0 0 0 1,
                          gscale = Vector3 1 1 1 \<rparr>,
       focusDistance = 15.0,
       wheelListener = False \<rparr>"

text \<open>
  The zoom effect of \<open>PhotoFrame\<close> (dependencies \<open>isFocused\<close>, \<open>state\<close>): the cleanup
  of the previous run removes the listener; the new run returns at once unless the
  photo is focused in FOCUS mode, and otherwise resets the distance and listens.
\<close>

definition PhotoFrame_zoomEffect :: "bool \<Rightarrow> TreeState \<Rightarrow> PhotoFrame_state \<Rightarrow> PhotoFrame_state" where
  "PhotoFrame_zoomEffect isFocused state s =
     (if \<not> isFocused \<or> state \<noteq> FOCUS then s\<lparr> wheelListener := False \<rparr>
      else s\<lparr> focusDistance := 15.0, wheelListener := True \<rparr>)"

text \<open>A wheel event with the given \<open>deltaY\<close>; \<open>handleWheel\<close> runs only while attached.\<close>

definition handleWheel :: "real \<Rightarrow> PhotoFrame_state \<Rightarrow> PhotoFrame_state" where
  "handleWheel deltaY s =
     (if wheelListener s
      then (let zoomSpeed = 0.02
            in s\<lparr> focusDistance := clamp (focusDistance s + deltaY * zoomSpeed) 5.0 40.0 \<rparr>)
      else s)"

datatype zoom_event = EffectRun bool TreeState | Wheel real

fun zoom_step :: "zoom_event \<Rightarrow> PhotoFrame_state \<Rightarrow> PhotoFrame_state" where
  "zoom_step (EffectRun isFocused state) s = PhotoFrame_zoomEffect isFocused state s"
| "zoom_step (Wheel deltaY) s = handleWheel deltaY s"

fun zoom_run :: "zoom_event list \<Rightarrow> PhotoFrame_state \<Rightarrow> PhotoFrame_state" where
  "zoom_run [] s = s"
| "zoom_run (e # es) s = zoom_run es (zoom_step e s)"

text \<open>The focus distances after each of a run of wheel events.\<close>

fun wheel_trace :: "real list \<Rightarrow> PhotoFrame_state \<Rightarrow> real list" where
  "wheel_trace [] s = []"
| "wheel_trace (d # ds) s = focusDistance (handleWheel d s) # wheel_trace ds (handleWheel d s)"

text \<open>The \<open>useFrame\<close> callback of \<open>PhotoFrame\<close>.\<close>

definition PhotoFrame_useFrame ::
  "(quat \<Rightarrow> quat \<Rightarrow> real \<Rightarrow> quat) \<Rightarrow> camera_env \<Rightarrow> UserPhotoData \<Rightarrow> TreeState \<Rightarrow> bool \<Rightarrow> real
     \<Rightarrow> PhotoFrame_state \<Rightarrow> PhotoFrame_state" where
  "PhotoFrame_useFrame slerp env data state isFocused time s =
     (case groupRef s of
        None \<Rightarrow> s
      | Some g \<Rightarrow>
          (let (targetPos, targetRot, targetScale) =
                 (if state = FOCUS \<and> isFocused then
                    (let distance = focusDistance s;
                         forward = getWorldDirection env;
                         targetWorldPos = vadd (cameraPosition env) (multiplyScalar forward distance)
                     in (case parent env of
                           Some p \<Rightarrow>
                             (worldToLocal p targetWorldPos,
                              premultiply (cameraQuaternion env) (invert (getWorldQuaternion p)),
                              2.0)
                         | None \<Rightarrow> (targetWorldPos, cameraQuaternion env, 2.0)))
                  else if state = TREE_SHAPE then
                    (tree data,
                     setFromEuler (Euler (ex (rotation data)) (ey (rotation data)) (ez (rotation data))),
                     scale data)
                  else
                    (Vector3 (vx (scatter data) + cos (time * speed data * 0.5) * 0.5)
                             (vy (scatter data) + sin (time * speed data) * 0.5)
                             (vz (scatter data)),
                     setFromEuler (Euler (ex (rotation data) + (time * 0.2))
                                         (ey (rotation data) + (time * 0.3))
                                         (ez (rotation data))),
                     scale data));
               lerpFactor = 0.1
           in s\<lparr> groupRef :=
                   Some \<lparr> gposition = vlerp (gposition g) targetPos lerpFactor,
                          gquaternion = slerp (gquaternion g) targetRot lerpFactor,
                          gscale = vlerp (gscale g) (Vector3 targetScale targetScale targetScale)
                                     lerpFactor \<rparr> \<rparr>))"

text \<open>
  One element of \<open>photosData\<close> in \<open>UserPhotos\<close>; it draws nine random values,
  \<open>rnd k\<close> to \<open>rnd (k + 8)\<close>.
\<close>

definition photoItem :: "string \<Rightarrow> nat \<Rightarrow> (nat \<Rightarrow> real) \<Rightarrow> nat \<Rightarrow> UserPhotoData" where
  "photoItem u index rnd k =
     (let treePos0 = getTreePoint 10 5 (- 5) (rnd k) (rnd (k + 1)) (rnd (k + 2));
          radialDir = normalize (Vector3 (vx treePos0) 0 (vz treePos0));
          treePos = vadd treePos0 (multiplyScalar radialDir 0.8)
      in \<lparr> tree = treePos,
           scatter = getScatterPoint 18 (rnd (k + 3)) (rnd (k + 4)) (rnd (k + 5)),
           rotation = Euler 0 (rnd (k + 6) * pi * 2) 0,
           scale = randomRange 0.8 1.2 (rnd (k + 7)),
           speed = randomRange 0.5 1.5 (rnd (k + 8)),
           photoId = ''photo-'' @ string_of_nat index,
           url = u \<rparr>)"

definition UserPhotos_useMemo :: "string list \<Rightarrow> (nat \<Rightarrow> real) \<Rightarrow> UserPhotoData list" where
  "UserPhotos_useMemo photos rnd =
     map (\<lambda>index. photoItem (photos ! index) index rnd (9 * index)) [0..<length photos]"

text \<open>
  One frame of all the photo frames under \<open>UserPhotos\<close>: frame \<open>k\<close> belongs to
  \<open>photosData[k]\<close> and gets \<open>isFocused = (focusedId === data.id)\<close>.
\<close>

definition UserPhotos_useFrame ::
  "(quat \<Rightarrow> quat \<Rightarrow> real \<Rightarrow> quat) \<Rightarrow> camera_env \<Rightarrow> UserPhotoData list \<Rightarrow> TreeState \<Rightarrow> string option
     \<Rightarrow> real \<Rightarrow> PhotoFrame_state list \<Rightarrow> PhotoFrame_state list" where
  "UserPhotos_useFrame slerp env photosData state focusedId time frames =
     map (\<lambda>(data, s). PhotoFrame_useFrame slerp env data state (focusedId = Some (photoId data)) time s)
         (zip photosData frames)"

section \<open>components/Experience.tsx: the gesture classifier and the frame callback\<close>

text \<open>\<open>targetRotation\<close>: the rotation-control signal \<open>{x, y}\<close>.\<close>

record rotation2 =
  rotX :: real
  rotY :: real

text \<open>
  The state the classifier and the frame callback of \<open>Experience\<close> read and write:
  the application state (\<open>treeState\<close>, \<open>focusedPhotoId\<close>, owned by \<open>App\<close> and written
  through its setters), the refs \<open>targetRotation\<close> and \<open>lastVideoTimeRef\<close>, and the
  rotations of the main group and of the star (\<open>None\<close> while their ref is null).
\<close>

record Experience_state =
  treeState :: TreeState
  focusedPhotoId :: "string option"
  targetRotation :: rotation2
  lastVideoTimeRef :: real
  groupRotation :: "rotation2 option"
  starRotationY :: "real option"

text \<open>The distance helper of \<open>detectGestures\<close> (\<open>dist\<close> in the source).\<close>

definition dist3 :: "vec3 \<Rightarrow> vec3 \<Rightarrow> real" where
  "dist3 p1 p2 = sqrt ((vx p1 - vx p2)\<^sup>2 + (vy p1 - vy p2)\<^sup>2 + (vz p1 - vz p2)\<^sup>2)"

definition avgDistToWrist :: "vec3 list \<Rightarrow> real" where
  "avgDistToWrist landmarks =
     (let wrist = landmarks ! 0;
          tips = [landmarks ! 8, landmarks ! 12, landmarks ! 16, landmarks ! 20]
      in fold (\<lambda>tip acc. acc + dist3 tip wrist) tips 0 / 4)"

definition pinchDist :: "vec3 list \<Rightarrow> real" where
  "pinchDist landmarks = dist3 (landmarks ! 4) (landmarks ! 8)"

text \<open>
  \<open>detectGestures(landmarks)\<close>, with the photo list of the current render and the
  value \<open>rnd\<close> that \<open>Math.random()\<close> gives if it is called.  \<open>treeState\<close> in the body is
  the value of the current render, so the rotation branch tests the mode from before
  the call.  With fewer than 21 landmarks a fingertip is \<open>undefined\<close> and reading its
  \<open>x\<close> throws before anything is written: the result is \<open>None\<close>.
\<close>

definition detectGestures ::
  "string list \<Rightarrow> real \<Rightarrow> vec3 list \<Rightarrow> Experience_state \<Rightarrow> Experience_state option" where
  "detectGestures userPhotos rnd landmarks s =
     (if length landmarks < 21 then None
      else
        (let handCenter = landmarks ! 9;
             avg = avgDistToWrist landmarks;
             pinch = pinchDist landmarks;
             s1 = (if avg < 0.15 then
                     (if treeState s \<noteq> TREE_SHAPE then s\<lparr> treeState := TREE_SHAPE \<rparr> else s)
                   else if avg > 0.35 then
                     (if treeState s \<noteq> SCATTERED then s\<lparr> treeState := SCATTERED \<rparr> else s)
                   else if pinch < 0.05 then
                     (if treeState s \<noteq> FOCUS \<and> length userPhotos > 0 then
                        (let randomId = ''photo-'' @ string_of_int \<lfloor>rnd * real (length userPhotos)\<rfloor>
                         in s\<lparr> treeState := FOCUS, focusedPhotoId := Some randomId \<rparr>)
                      else s)
                   else s)
         in Some (if treeState s \<noteq> TREE_SHAPE
                  then s1\<lparr> targetRotation :=
                             \<lparr> rotX = (vy handCenter - 0.5) * 3.0, rotY = (vx handCenter - 0.5) * 3.0 \<rparr> \<rparr>
                  else s1\<lparr> targetRotation := \<lparr> rotX = 0, rotY = 0 \<rparr> \<rparr>)))"

text \<open>\<open>handlePhotoClick(id)\<close>.\<close>

definition handlePhotoClick :: "string \<Rightarrow> Experience_state \<Rightarrow> Experience_state" where
  "handlePhotoClick i s = s\<lparr> focusedPhotoId := Some i, treeState := FOCUS \<rparr>"

text \<open>The video element as the frame callback reads it.\<close>

record video =
  readyState :: nat
  paused :: bool
  videoWidth :: nat
  videoHeight :: nat
  currentTime :: real

text \<open>
  What \<open>detectForVideo\<close> does when it is called on a frame: it throws, or it returns
  a result whose \<open>landmarks\<close> is undefined (\<open>None\<close>) or a list with one landmark list
  per detected hand.
\<close>

datatype detection = DetectThrows | DetectResult "vec3 list list option"

record frame_input =
  visionEnabled :: bool
  handLandmarkerRef :: bool
  videoRef :: "video option"
  detectForVideo :: detection
  userPhotos :: "string list"
  random :: real

text \<open>The gate in front of the hand tracking in the frame callback.\<close>

definition frameGate :: "frame_input \<Rightarrow> video \<Rightarrow> Experience_state \<Rightarrow> bool" where
  "frameGate inp v s =
     (visionEnabled inp \<and> handLandmarkerRef inp \<and> readyState v \<ge> 2 \<and> \<not> paused v
      \<and> videoWidth v > 0 \<and> videoHeight v > 0 \<and> currentTime v \<noteq> lastVideoTimeRef s)"

definition frameAvailable :: "frame_input \<Rightarrow> Experience_state \<Rightarrow> bool" where
  "frameAvailable inp s = (case videoRef inp of None \<Rightarrow> False | Some v \<Rightarrow> frameGate inp v s)"

text \<open>
  The hand-tracking part of the frame callback: the \<open>try\<close> block swallows what
  \<open>detectForVideo\<close> or \<open>detectGestures\<close> throws.
\<close>

definition processFrame :: "frame_input \<Rightarrow> Experience_state \<Rightarrow> Experience_state" where
  "processFrame inp s =
     (case videoRef inp of
        None \<Rightarrow> s
      | Some v \<Rightarrow>
          (if frameGate inp v s then
             (let s' = s\<lparr> lastVideoTimeRef := currentTime v \<rparr>
              in (case detectForVideo inp of
                    DetectThrows \<Rightarrow> s'
                  | DetectResult None \<Rightarrow> s'
                  | DetectResult (Some hands) \<Rightarrow>
                      (if length hands > 0 then
                         (case detectGestures (userPhotos inp) (random inp) (hands ! 0) s' of
                            None \<Rightarrow> s'
                          | Some s'' \<Rightarrow> s'')
                       else s')))
           else s))"

text \<open>
  The rotation of the main group; \<open>treeState\<close> is the value of the current render, the
  rotation target is the ref as the classifier has just left it.
\<close>

definition animateGroup :: "TreeState \<Rightarrow> rotation2 \<Rightarrow> rotation2 \<Rightarrow> rotation2" where
  "animateGroup state target r =
     (if state = TREE_SHAPE then \<lparr> rotX = lerp (rotX r) 0 0.05, rotY = rotY r + 0.002 \<rparr>
      else if state = FOCUS then \<lparr> rotX = lerp (rotX r) 0 0.1, rotY = lerp (rotY r) 0 0.1 \<rparr>
      else \<lparr> rotX = lerp (rotX r) (rotX target) 0.05, rotY = lerp (rotY r) (rotY target) 0.05 \<rparr>)"

text \<open>The \<open>useFrame\<close> callback of \<open>Experience\<close>.\<close>

definition Experience_useFrame :: "frame_input \<Rightarrow> Experience_state \<Rightarrow> Experience_state" where
  "Experience_useFrame inp s =
     (let s1 = processFrame inp s
      in s1\<lparr> groupRotation := map_option (animateGroup (treeState s) (targetRotation s1)) (groupRotation s1),
             starRotationY := map_option (\<lambda>r. r + 0.01) (starRotationY s1) \<rparr>)"

section \<open>App\<close>

text \<open>\<open>toggleState\<close>: the update function given to \<open>setTreeState\<close>.\<close>

definition toggleState :: "TreeState \<Rightarrow> TreeState" where
  "toggleState prev = (if prev = TREE_SHAPE then SCATTERED else TREE_SHAPE)"

section \<open>The scene of one frame\<close>

text \<open>
  Everything the frame callbacks of the entity groups under \<open>Experience\<close> write:
  the foliage uniforms, the four ornament meshes, the gifts mesh and the photo frames.
\<close>

record scene =
  foliage :: "Foliage_uniforms option"
  ornaments :: Ornaments_refs
  gifts :: "mesh option"
  photoFrames :: "PhotoFrame_state list"

record scene_data =
  ornamentsData :: Ornaments_data
  giftsData :: "OrnamentData list"
  photosData :: "UserPhotoData list"

text \<open>
  The frame callbacks of the entity groups on one displayed frame: \<open>Foliage\<close>,
  \<open>Ornaments\<close> and \<open>Gifts\<close> receive \<open>state\<close> only; \<open>UserPhotos\<close> receives \<open>state\<close>
  and \<open>focusedId\<close>.
\<close>

definition scene_frame ::
  "(quat \<Rightarrow> quat \<Rightarrow> real \<Rightarrow> quat) \<Rightarrow> camera_env \<Rightarrow> scene_data \<Rightarrow> TreeState \<Rightarrow> string option
     \<Rightarrow> real \<Rightarrow> real \<Rightarrow> scene \<Rightarrow> scene" where
  "scene_frame slerp env d state focusedId time delta sc =
     \<lparr> foliage = Foliage_useFrame state time delta (foliage sc),
       ornaments = Ornaments_useFrame (ornamentsData d) state time delta (ornaments sc),
       gifts = Gifts_useFrame (giftsData d) state time delta (gifts sc),
       photoFrames =
         UserPhotos_useFrame slerp env (photosData d) state focusedId time (photoFrames sc) \<rparr>"

text \<open>
  A run of frames; each frame comes with the mode and the focused id of its render,
  the camera, the elapsed time and the delta.
\<close>

fun scene_run ::
  "(quat \<Rightarrow> quat \<Rightarrow> real \<Rightarrow> quat) \<Rightarrow> scene_data
     \<Rightarrow> (camera_env \<times> TreeState \<times> string option \<times> real \<times> real) list \<Rightarrow> scene \<Rightarrow> scene" where
  "scene_run slerp d [] sc = sc"
| "scene_run slerp d ((env, state, focusedId, time, delta) # frames) sc =
     scene_run slerp d frames (scene_frame slerp env d state focusedId time delta sc)"

section \<open>Runs of frames and what is observed of them\<close>

text \<open>
  The morph step that \<open>Foliage\<close> (rate 2), \<open>updateInstances\<close> and \<open>Gifts\<close> (rate 1.5)
  share, iterated over the deltas of a run of frames.
\<close>

fun morph_run :: "real \<Rightarrow> real \<Rightarrow> real list \<Rightarrow> real \<Rightarrow> real" where
  "morph_run rate target [] p = p"
| "morph_run rate target (d # ds) p = morph_run rate target ds (lerp p target (rate * d))"

text \<open>
  The deltas of a run are non-negative and keep \<open>rate * delta\<close> at most 1.
\<close>

definition stable_deltas :: "real \<Rightarrow> (real \<times> real) list \<Rightarrow> bool" where
  "stable_deltas rate frames = (\<forall>(time, delta) \<in> set frames. 0 \<le> delta \<and> rate * delta \<le> 1)"

text \<open>One ornament mesh over a run of frames, each given as (elapsed time, delta).\<close>

fun updateInstances_run ::
  "OrnamentData list \<Rightarrow> real \<Rightarrow> (real \<times> real) list \<Rightarrow> mesh option \<Rightarrow> mesh option" where
  "updateInstances_run data targetMorph [] meshRef = meshRef"
| "updateInstances_run data targetMorph ((time, delta) # frames) meshRef =
     updateInstances_run data targetMorph frames (updateInstances meshRef data targetMorph time delta)"

text \<open>
  The morph progress a group holds: the uniform \<open>uMorphFactor\<close> of the foliage, and
  \<open>userData.morphValue\<close> of a mesh, which the code reads as 0 while it is undefined.
\<close>

definition morph0 :: "mesh \<Rightarrow> real" where
  "morph0 m = (case morphValue m of None \<Rightarrow> 0 | Some v \<Rightarrow> v)"

definition Foliage_progress :: "Foliage_uniforms option \<Rightarrow> real option" where
  "Foliage_progress shaderRef = map_option uMorphFactor shaderRef"

definition mesh_progress :: "mesh option \<Rightarrow> real option" where
  "mesh_progress meshRef = map_option morph0 meshRef"

section \<open>Runs of the classifier\<close>

text \<open>
  \<open>Experience\<close> as \<open>App\<close> mounts it: mode \<open>SCATTERED\<close>, no focused photo, the refs at
  their initial values.
\<close>

definition Experience_mount :: Experience_state where
  "Experience_mount =
     \<lparr> treeState = SCATTERED, focusedPhotoId = None,
       targetRotation = \<lparr> rotX = 0, rotY = 0 \<rparr>,
       lastVideoTimeRef = - 1,
       groupRotation = Some \<lparr> rotX = 0, rotY = 0 \<rparr>,
       starRotationY = Some 0 \<rparr>"

text \<open>
  A run of hand samples through the classifier, each with the value \<open>Math.random()\<close>
  would give; a sample on which the classifier throws leaves the state as it is.
\<close>

fun classify_run :: "string list \<Rightarrow> (real \<times> vec3 list) list \<Rightarrow> Experience_state \<Rightarrow> Experience_state" where
  "classify_run photos [] s = s"
| "classify_run photos ((rnd, landmarks) # samples) s =
     classify_run photos samples
       (case detectGestures photos rnd landmarks s of None \<Rightarrow> s | Some s' \<Rightarrow> s')"

text \<open>
  The entity groups as React mounts them the first time for given data: the shader
  uniforms at their initial values, fresh meshes, and one photo frame per photo.
  (The uniforms object of \<open>FoliageShaderMaterial\<close> is shared by every material built
  from it, so a foliage created again later resumes at the morph factor last
  written; this is the first mount only.)
\<close>

definition scene_mount :: "scene_data \<Rightarrow> scene" where
  "scene_mount d =
     \<lparr> foliage = Some FoliageShaderMaterial,
       ornaments = Ornaments_mount (ornamentsData d),
       gifts = Some (newMesh (length (giftsData d))),
       photoFrames = replicate (length (photosData d)) PhotoFrame_mount \<rparr>"

text \<open>
  An ornament group has settled on the tree: its morph progress is above 0.95 (and
  at most 1), it has one instance per data item, and every instance is drawn less
  than 0.05 scene units from the \<open>tree\<close> position of its item.
\<close>

definition settled :: "mesh option \<Rightarrow> OrnamentData list \<Rightarrow> bool" where
  "settled meshRef data =
     (case meshRef of
        None \<Rightarrow> False
      | Some m \<Rightarrow>
          (case morphValue m of
             None \<Rightarrow> False
           | Some p \<Rightarrow>
               0.95 < p \<and> p \<le> 1 \<and> length (instanceMatrix m) = length data
               \<and> list_all (\<lambda>(tr, item). distanceTo (position tr) (tree item) < 0.05)
                    (zip (instanceMatrix m) data)))"

section \<open>The point generators stay inside their shapes\<close>

lemma getScatterPoint_vlength:
  assumes "0 \<le> radius" "0 \<le> w"
  shows "vlength (getScatterPoint radius u v w) = root 3 w * radius"
proof -
  define r where "r = root 3 w * radius"
  define phi where "phi = arccos (2 * v - 1)"
  define theta where "theta = 2 * pi * u"
  have r0: "0 \<le> r" using assms by (simp add: r_def)
  have "(r * sin phi * cos theta) * (r * sin phi * cos theta)
        + (r * sin phi * sin theta) * (r * sin phi * sin theta)
        + (r * cos phi) * (r * cos phi)
        = r\<^sup>2 * ((sin phi)\<^sup>2 * ((cos theta)\<^sup>2 + (sin theta)\<^sup>2) + (cos phi)\<^sup>2)"
    by (simp only: power2_eq_square ring_distribs mult_ac)
  also have "\<dots> = r\<^sup>2" by simp
  finally have "vlength (getScatterPoint radius u v w) = sqrt (r\<^sup>2)"
    by (simp add: vlength_def getScatterPoint_def Let_def r_def phi_def theta_def)
  then show ?thesis using r0 by (simp add: r_def)
qed

text \<open>
  C5.  For every radius \<open>r > 0\<close> and every choice of the three draws in \<open>[0, 1)\<close>,
  the point returned by \<open>getScatterPoint\<close> has Euclidean norm at most \<open>r\<close>, and the
  cube of that norm is the third draw times \<open>r\<^sup>3\<close>: the norm cubed is the image of one
  uniform draw under a linear map onto \<open>[0, r\<^sup>3)\<close>, which is what makes the density
  uniform by volume.
\<close>

theorem getScatterPoint_in_sphere:
  assumes "0 < r"
    and "0 \<le> u \<and> u < 1" and "0 \<le> v \<and> v < 1" and "0 \<le> w \<and> w < 1"
  shows "vlength (getScatterPoint r u v w) \<le> r
       \<and> (vlength (getScatterPoint r u v w)) ^ 3 = w * r ^ 3
       \<and> 0 \<le> (vlength (getScatterPoint r u v w)) ^ 3
       \<and> (vlength (getScatterPoint r u v w)) ^ 3 < r ^ 3"
proof -
  have len: "vlength (getScatterPoint r u v w) = root 3 w * r"
    using assms by (intro getScatterPoint_vlength) simp_all
  have "root 3 w \<le> root 3 1" using assms by (intro real_root_le_mono) simp_all
  then have "root 3 w \<le> 1" by simp
  then have le: "root 3 w * r \<le> r"
    using assms(1) by (simp add: mult_left_le_one_le mult.commute)
  have "(root 3 w) ^ 3 = w" using assms by (intro real_root_pow_pos2) simp_all
  then have cube: "(root 3 w * r) ^ 3 = w * r ^ 3" by (simp add: power_mult_distrib)
  have "0 \<le> w * r ^ 3" using assms by simp
  moreover have "w * r ^ 3 < r ^ 3" using assms by simp
  ultimately show ?thesis using len le cube by simp
qed

theorem getScatterPoint_in_sphere_witness:
  "(0::real) < 2 \<and> ((0::real) \<le> 0 \<and> (0::real) < 1) \<and> ((0::real) \<le> 1/2 \<and> (1/2::real) < 1)
   \<and> ((0::real) \<le> 1/8 \<and> (1/8::real) < 1)
   \<and> vlength (getScatterPoint 2 0 (1/2) (1/8)) \<le> 2
   \<and> (vlength (getScatterPoint 2 0 (1/2) (1/8))) ^ 3 = (1/8) * 2 ^ 3"
proof -
  have h1: "(0::real) < 2" by simp
  have h2: "(0::real) \<le> 0 \<and> (0::real) < 1" by simp
  have h3: "(0::real) \<le> 1/2 \<and> (1/2::real) < 1" by simp
  have h4: "(0::real) \<le> 1/8 \<and> (1/8::real) < 1" by simp
  from getScatterPoint_in_sphere [OF h1 h2 h3 h4] show ?thesis
    using h1 h2 h3 h4 by blast
qed

lemma getTreePoint_radial:
  assumes "0 \<le> radius" "0 \<le> h" "h < 1" "0 \<le> s"
  shows "sqrt (vx (getTreePoint height radius yOffset h s a) * vx (getTreePoint height radius yOffset h s a)
             + vz (getTreePoint height radius yOffset h s a) * vz (getTreePoint height radius yOffset h s a))
         = radius * (1 - h) * (0.2 + 0.8 * sqrt s)"
proof -
  define r where "r = radius * (1 - h) * (0.2 + 0.8 * sqrt s)"
  define theta where "theta = a * pi * 2"
  have r0: "0 \<le> r" using assms by (simp add: r_def)
  have "(r * cos theta) * (r * cos theta) + (r * sin theta) * (r * sin theta)
        = r\<^sup>2 * ((cos theta)\<^sup>2 + (sin theta)\<^sup>2)"
    by (simp only: power2_eq_square ring_distribs mult_ac)
  also have "\<dots> = r\<^sup>2" by simp
  finally have "sqrt ((r * cos theta) * (r * cos theta) + (r * sin theta) * (r * sin theta)) = r"
    using r0 by simp
  then show ?thesis
    by (simp add: getTreePoint_def Let_def r_def theta_def)
qed

text \<open>
  C6.  For every height \<open>h > 0\<close>, base radius \<open>b \<ge> 0\<close>, offset \<open>yOffset\<close> and every
  choice of the three draws in \<open>[0, 1)\<close>, the point returned by \<open>getTreePoint\<close> has
  its \<open>y\<close> in \<open>[yOffset, yOffset + h)\<close>, and its radial distance \<open>sqrt (x\<^sup>2 + z\<^sup>2)\<close> is at
  most the tapering maximum \<open>b * (1 - (y - yOffset) / h)\<close> and at least 20 per cent
  of that maximum.
\<close>

theorem getTreePoint_in_cone:
  assumes "0 < h" and "0 \<le> b"
    and "0 \<le> u \<and> u < 1" and "0 \<le> s \<and> s < 1" and "0 \<le> a \<and> a < 1"
  shows "yOffset \<le> vy (getTreePoint h b yOffset u s a)
       \<and> vy (getTreePoint h b yOffset u s a) < yOffset + h
       \<and> sqrt (vx (getTreePoint h b yOffset u s a) * vx (getTreePoint h b yOffset u s a)
              + vz (getTreePoint h b yOffset u s a) * vz (getTreePoint h b yOffset u s a))
           \<le> b * (1 - (vy (getTreePoint h b yOffset u s a) - yOffset) / h)
       \<and> 0.2 * (b * (1 - (vy (getTreePoint h b yOffset u s a) - yOffset) / h))
           \<le> sqrt (vx (getTreePoint h b yOffset u s a) * vx (getTreePoint h b yOffset u s a)
              + vz (getTreePoint h b yOffset u s a) * vz (getTreePoint h b yOffset u s a))"
proof -
  have y: "vy (getTreePoint h b yOffset u s a) = u * h + yOffset"
    by (simp add: getTreePoint_def Let_def)
  have frac: "(vy (getTreePoint h b yOffset u s a) - yOffset) / h = u"
    using assms(1) by (simp add: y)
  have rad: "sqrt (vx (getTreePoint h b yOffset u s a) * vx (getTreePoint h b yOffset u s a)
              + vz (getTreePoint h b yOffset u s a) * vz (getTreePoint h b yOffset u s a))
             = b * (1 - u) * (0.2 + 0.8 * sqrt s)"
    using assms by (intro getTreePoint_radial) simp_all
  have m0: "0 \<le> b * (1 - u)" using assms by simp
  define q where "q = sqrt s"
  have "sqrt s < sqrt 1" using assms by (intro real_sqrt_less_mono) simp
  then have s1: "q \<le> 1" by (simp add: q_def)
  have s0: "0 \<le> q" using assms by (simp add: q_def)
  have f1: "0.2 + 0.8 * q \<le> 1" using s1 by simp
  have f0: "0.2 \<le> 0.2 + 0.8 * q" using s0 by simp
  have up: "b * (1 - u) * (0.2 + 0.8 * sqrt s) \<le> b * (1 - u) * 1"
    using mult_left_mono [OF f1 m0] by (simp add: q_def)
  have lo: "b * (1 - u) * 0.2 \<le> b * (1 - u) * (0.2 + 0.8 * sqrt s)"
    using mult_left_mono [OF f0 m0] by (simp add: q_def)
  have y0: "yOffset \<le> u * h + yOffset" using assms by simp
  have "u * h < 1 * h" using assms by (intro mult_strict_right_mono) simp_all
  then have y1: "u * h + yOffset < yOffset + h" by simp
  show ?thesis
    unfolding frac rad unfolding y using y0 y1 up lo by (simp add: mult.commute)
qed

theorem getTreePoint_in_cone_witness:
  "(0::real) < 12 \<and> (0::real) \<le> 5 \<and> ((0::real) \<le> 1/2 \<and> (1/2::real) < 1)
   \<and> ((0::real) \<le> 1/4 \<and> (1/4::real) < 1) \<and> ((0::real) \<le> 0 \<and> (0::real) < 1)
   \<and> -6 \<le> vy (getTreePoint 12 5 (-6) (1/2) (1/4) 0)
   \<and> vy (getTreePoint 12 5 (-6) (1/2) (1/4) 0) < -6 + 12"
proof -
  have h1: "(0::real) < 12" by simp
  have h2: "(0::real) \<le> 5" by simp
  have h3: "(0::real) \<le> 1/2 \<and> (1/2::real) < 1" by simp
  have h4: "(0::real) \<le> 1/4 \<and> (1/4::real) < 1" by simp
  have h5: "(0::real) \<le> 0 \<and> (0::real) < 1" by simp
  from getTreePoint_in_cone [OF h1 h2 h3 h4 h5, of "-6"] show ?thesis
    using h1 h2 h3 h4 h5 by blast
qed

section \<open>The morph clock\<close>

lemma lerp_one_step:
  assumes "0 \<le> p" "p \<le> 1" "0 \<le> t" "t \<le> 1"
  shows "p \<le> lerp p 1 t" "lerp p 1 t \<le> 1" "1 - lerp p 1 t = (1 - p) * (1 - t)"
proof -
  have e: "lerp p 1 t = p + t * (1 - p)" by (simp add: lerp_def algebra_simps)
  have "0 \<le> t * (1 - p)" using assms by simp
  then show "p \<le> lerp p 1 t" by (simp add: e)
  have "t * (1 - p) \<le> 1 * (1 - p)" using assms by (intro mult_right_mono) simp_all
  then show "lerp p 1 t \<le> 1" by (simp add: e)
  show "1 - lerp p 1 t = (1 - p) * (1 - t)" by (simp add: e algebra_simps)
qed

lemma morph_run_snoc:
  "morph_run rate target (ds @ [d]) p = lerp (morph_run rate target ds p) target (rate * d)"
  by (induction ds arbitrary: p) simp_all

lemma morph_run_bounds:
  assumes "0 \<le> rate" "\<forall>d \<in> set ds. 0 \<le> d \<and> rate * d \<le> 1" "0 \<le> p" "p \<le> 1"
  shows "p \<le> morph_run rate 1 ds p \<and> morph_run rate 1 ds p \<le> 1
       \<and> 1 - morph_run rate 1 ds p \<le> (1 - p) * exp (- rate * sum_list ds)"
  using assms(2-)
proof (induction ds arbitrary: p)
  case Nil
  then show ?case by simp
next
  case (Cons d ds)
  define q where "q = lerp p 1 (rate * d)"
  have t0: "0 \<le> rate * d" and t1: "rate * d \<le> 1" using Cons.prems assms(1) by simp_all
  have q: "p \<le> q" "q \<le> 1" "1 - q = (1 - p) * (1 - rate * d)"
    unfolding q_def using lerp_one_step [OF Cons.prems(2,3) t0 t1] by simp_all
  have q0: "0 \<le> q" using q(1) Cons.prems(2) by simp
  have ih: "q \<le> morph_run rate 1 ds q \<and> morph_run rate 1 ds q \<le> 1
       \<and> 1 - morph_run rate 1 ds q \<le> (1 - q) * exp (- rate * sum_list ds)"
    using Cons.IH [OF _ q0 q(2)] Cons.prems(1) by simp
  have e1: "1 - rate * d \<le> exp (- (rate * d))"
    using exp_ge_add_one_self [of "- (rate * d)"] by simp
  have "(1 - q) * exp (- rate * sum_list ds) = (1 - p) * ((1 - rate * d) * exp (- rate * sum_list ds))"
    by (simp add: q(3))
  also have "\<dots> \<le> (1 - p) * (exp (- (rate * d)) * exp (- rate * sum_list ds))"
    using e1 Cons.prems(3) by (intro mult_left_mono mult_right_mono) simp_all
  also have "\<dots> = (1 - p) * exp (- rate * sum_list (d # ds))"
    by (simp add: exp_add [symmetric] algebra_simps)
  finally have "(1 - q) * exp (- rate * sum_list ds) \<le> (1 - p) * exp (- rate * sum_list (d # ds))" .
  then show ?case using ih q(1) by (simp add: q_def)
qed

lemma Foliage_run_morph:
  "\<exists>u'. Foliage_run state frames (Some u) = Some u'
        \<and> uMorphFactor u' = morph_run 2 (if state = TREE_SHAPE then 1 else 0) (map snd frames) (uMorphFactor u)"
proof (induction frames arbitrary: u)
  case Nil
  then show ?case by simp
next
  case (Cons f frames)
  obtain time delta where f: "f = (time, delta)" by (cases f)
  define tgt :: real where "tgt = (if state = TREE_SHAPE then 1 else 0)"
  define u1 where "u1 = u\<lparr> uTime := time, uMorphFactor := lerp (uMorphFactor u) tgt (2 * delta) \<rparr>"
  have step: "Foliage_useFrame state time delta (Some u) = Some u1"
    by (simp add: Foliage_useFrame_def Let_def u1_def tgt_def)
  from Cons.IH [of u1] obtain u' where
    u': "Foliage_run state frames (Some u1) = Some u'"
        "uMorphFactor u' = morph_run 2 tgt (map snd frames) (uMorphFactor u1)"
    unfolding tgt_def by blast
  have "uMorphFactor u1 = lerp (uMorphFactor u) tgt (2 * delta)" by (simp add: u1_def)
  then have "uMorphFactor u' = morph_run 2 tgt (map snd (f # frames)) (uMorphFactor u)"
    using u'(2) by (simp add: f)
  moreover have "Foliage_run state (f # frames) (Some u) = Some u'"
    using u'(1) by (simp add: f step)
  ultimately show ?case unfolding tgt_def by blast
qed

lemma updateInstances_Some:
  "updateInstances (Some m) data target time delta =
     Some (m\<lparr> morphValue := Some (lerp (morph0 m) target (1.5 * delta)),
              instanceMatrix :=
                fold (\<lambda>i ms. ms[i := instanceTransform (data ! i) i (lerp (morph0 m) target (1.5 * delta)) time])
                     [0..<length data] (instanceMatrix m) \<rparr>)"
  by (simp add: updateInstances_def Let_def morph0_def)

lemma updateInstances_run_morph:
  "\<exists>m'. updateInstances_run data target frames (Some m) = Some m'
        \<and> morphValue m' = (if frames = [] then morphValue m
                           else Some (morph_run 1.5 target (map snd frames) (morph0 m)))"
proof (induction frames arbitrary: m)
  case Nil
  then show ?case by simp
next
  case (Cons f frames)
  obtain time delta where f: "f = (time, delta)" by (cases f)
  obtain m1 where step: "updateInstances (Some m) data target time delta = Some m1"
    and mv: "morphValue m1 = Some (lerp (morph0 m) target (1.5 * delta))"
    by (simp add: updateInstances_Some)
  from Cons.IH [of m1] obtain m' where
    m': "updateInstances_run data target frames (Some m1) = Some m'"
        "morphValue m' = (if frames = [] then morphValue m1
                          else Some (morph_run 1.5 target (map snd frames) (morph0 m1)))"
    by blast
  have m01: "morph0 m1 = lerp (morph0 m) target (1.5 * delta)" by (simp add: morph0_def mv)
  have "morphValue m' = Some (morph_run 1.5 target (map snd (f # frames)) (morph0 m))"
    using m'(2) by (cases "frames = []") (simp_all add: f mv m01)
  moreover have "updateInstances_run data target (f # frames) (Some m) = Some m'"
    using m'(1) by (simp add: f step)
  ultimately show ?case by simp
qed

lemma fold_setMatrixAt_length:
  "length (fold (\<lambda>i ms. ms[i := f i]) is ms) = length ms"
  by (induction "is" arbitrary: ms) simp_all

lemma fold_setMatrixAt_nth:
  "i < n \<Longrightarrow> i < length ms \<Longrightarrow> fold (\<lambda>i ms. ms[i := f i]) [0..<n] ms ! i = f i"
proof (induction n)
  case 0
  then show ?case by simp
next
  case (Suc n)
  show ?case
  proof (cases "i = n")
    case True
    then show ?thesis using Suc.prems by (simp add: fold_setMatrixAt_length)
  next
    case False
    then have "i < n" using Suc.prems by simp
    then show ?thesis using Suc.IH Suc.prems False by simp
  qed
qed


lemma Foliage_progress_run:
  "Foliage_progress (Foliage_run state frames (Some u))
     = Some (morph_run 2 (if state = TREE_SHAPE then 1 else 0) (map snd frames) (uMorphFactor u))"
  using Foliage_run_morph [of state frames u] by (auto simp: Foliage_progress_def)

lemma mesh_progress_run:
  "mesh_progress (updateInstances_run data target frames (Some m))
     = Some (morph_run 1.5 target (map snd frames) (morph0 m))"
  using updateInstances_run_morph [of data target frames m]
  by (cases "frames = []") (auto simp: mesh_progress_def morph0_def)

lemma stable_deltas_take:
  "stable_deltas rate frames \<Longrightarrow> \<forall>d \<in> set (map snd (take n frames)). 0 \<le> d \<and> rate * d \<le> 1"
  by (auto simp: stable_deltas_def dest!: in_set_takeD)

lemma morph_run_prefix_facts:
  assumes r: "0 \<le> rate" and st: "stable_deltas rate frames"
  shows "\<exists>p q. morph_run rate 1 (map snd (take n frames)) 0 = p
             \<and> morph_run rate 1 (map snd (take (Suc n) frames)) 0 = q
             \<and> 0 \<le> p \<and> p \<le> q \<and> q \<le> 1
             \<and> 1 - p \<le> exp (- rate * sum_list (map snd (take n frames)))"
proof -
  define p where "p = morph_run rate 1 (map snd (take n frames)) 0"
  define q where "q = morph_run rate 1 (map snd (take (Suc n) frames)) 0"
  have bp: "0 \<le> p \<and> p \<le> 1 \<and> 1 - p \<le> (1 - 0) * exp (- rate * sum_list (map snd (take n frames)))"
    unfolding p_def using morph_run_bounds [OF r stable_deltas_take [OF st, of n], of 0] by simp
  have bq: "q \<le> 1"
    unfolding q_def using morph_run_bounds [OF r stable_deltas_take [OF st, of "Suc n"], of 0] by simp
  have pq: "p \<le> q"
  proof (cases "n < length frames")
    case True
    then have tk: "take (Suc n) frames = take n frames @ [frames ! n]"
      by (simp add: take_Suc_conv_app_nth)
    have "frames ! n \<in> set frames" using True by simp
    then have d: "0 \<le> snd (frames ! n) \<and> rate * snd (frames ! n) \<le> 1"
      using st by (auto simp: stable_deltas_def)
    have t0: "0 \<le> rate * snd (frames ! n)" using d r by simp
    have "q = lerp p 1 (rate * snd (frames ! n))"
      unfolding q_def p_def by (simp add: tk morph_run_snoc)
    then show ?thesis using lerp_one_step(1) [of p "rate * snd (frames ! n)"] bp t0 d by simp
  next
    case False
    then show ?thesis by (simp add: p_def q_def)
  qed
  show ?thesis using bp bq pq p_def q_def by simp
qed

text \<open>
  C1, as the code has it.  With the target held at Formed and the progress starting
  at 0, over every run of frames whose deltas are non-negative and keep
  \<open>rate * delta \<le> 1\<close> (rate 2 for the foliage, 1.5 for an ornament mesh), the progress
  after \<open>n\<close> frames lies in \<open>[0, 1]\<close>, is at most the progress after \<open>n + 1\<close> frames, and
  is within \<open>exp (- rate * T)\<close> of 1, where \<open>T\<close> is the sum of the first \<open>n\<close> deltas.
\<close>

theorem morph_progress_stable:
  "(stable_deltas 2 frames \<and> uMorphFactor u = 0 \<longrightarrow>
      (\<exists>p q. Foliage_progress (Foliage_run TREE_SHAPE (take n frames) (Some u)) = Some p
            \<and> Foliage_progress (Foliage_run TREE_SHAPE (take (Suc n) frames) (Some u)) = Some q
            \<and> 0 \<le> p \<and> p \<le> q \<and> q \<le> 1
            \<and> 1 - p \<le> exp (- 2 * sum_list (map snd (take n frames)))))
   \<and> (stable_deltas 1.5 frames \<and> (morphValue m = None \<or> morphValue m = Some 0) \<longrightarrow>
      (\<exists>p q. mesh_progress (updateInstances_run data 1 (take n frames) (Some m)) = Some p
            \<and> mesh_progress (updateInstances_run data 1 (take (Suc n) frames) (Some m)) = Some q
            \<and> 0 \<le> p \<and> p \<le> q \<and> q \<le> 1
            \<and> 1 - p \<le> exp (- 1.5 * sum_list (map snd (take n frames)))))"
proof (intro conjI impI)
  assume a: "stable_deltas 2 frames \<and> uMorphFactor u = 0"
  show "\<exists>p q. Foliage_progress (Foliage_run TREE_SHAPE (take n frames) (Some u)) = Some p
            \<and> Foliage_progress (Foliage_run TREE_SHAPE (take (Suc n) frames) (Some u)) = Some q
            \<and> 0 \<le> p \<and> p \<le> q \<and> q \<le> 1
            \<and> 1 - p \<le> exp (- 2 * sum_list (map snd (take n frames)))"
    using morph_run_prefix_facts [of 2 frames n] a by (simp add: Foliage_progress_run)
next
  assume a: "stable_deltas 1.5 frames \<and> (morphValue m = None \<or> morphValue m = Some 0)"
  then have m0: "morph0 m = 0" by (auto simp: morph0_def)
  show "\<exists>p q. mesh_progress (updateInstances_run data 1 (take n frames) (Some m)) = Some p
            \<and> mesh_progress (updateInstances_run data 1 (take (Suc n) frames) (Some m)) = Some q
            \<and> 0 \<le> p \<and> p \<le> q \<and> q \<le> 1
            \<and> 1 - p \<le> exp (- 1.5 * sum_list (map snd (take n frames)))"
    using morph_run_prefix_facts [of "1.5" frames n] a by (simp add: mesh_progress_run m0)
qed

theorem morph_progress_stable_witness:
  "stable_deltas 2 [(1/60, 1/60), (2/60, 1/60)] \<and> uMorphFactor FoliageShaderMaterial = 0
   \<and> stable_deltas 1.5 [(1/60, 1/60), (2/60, 1/60)] \<and> morphValue (newMesh 0) = None
   \<and> (\<exists>p q. Foliage_progress (Foliage_run TREE_SHAPE (take 1 [(1/60, 1/60), (2/60, 1/60)])
                 (Some FoliageShaderMaterial)) = Some p
          \<and> Foliage_progress (Foliage_run TREE_SHAPE (take (Suc 1) [(1/60, 1/60), (2/60, 1/60)])
                 (Some FoliageShaderMaterial)) = Some q
          \<and> 0 \<le> p \<and> p \<le> q \<and> q \<le> 1)
   \<and> (\<exists>p q. mesh_progress (updateInstances_run [] 1 (take 1 [(1/60, 1/60), (2/60, 1/60)])
                 (Some (newMesh 0))) = Some p
          \<and> mesh_progress (updateInstances_run [] 1 (take (Suc 1) [(1/60, 1/60), (2/60, 1/60)])
                 (Some (newMesh 0))) = Some q
          \<and> 0 \<le> p \<and> p \<le> q \<and> q \<le> 1)"
proof -
  have h1: "stable_deltas 2 [(1/60, 1/60), (2/60, 1/60)]" by (simp add: stable_deltas_def)
  have h2: "uMorphFactor FoliageShaderMaterial = 0" by (simp add: FoliageShaderMaterial_def)
  have h3: "stable_deltas 1.5 [(1/60, 1/60), (2/60, 1/60)]" by (simp add: stable_deltas_def)
  have h4: "morphValue (newMesh 0) = None" by (simp add: newMesh_def)
  from morph_progress_stable [of "[(1/60, 1/60), (2/60, 1/60)]" FoliageShaderMaterial 1 "newMesh 0" "[]"]
  show ?thesis using h1 h2 h3 h4 by blast
qed


text \<open>
  C1 as stated, for arbitrary non-negative deltas, fails: the interpolation factor
  \<open>rate * delta\<close> is not clamped.  One frame with delta 1 takes the foliage from 0
  to 2 and an ornament mesh from 0 to 3/2, and a second such frame takes them down
  again, to 0 and to 3/4.
\<close>

theorem morph_progress_overshoot:
  "(0::real) \<le> 1
   \<and> Foliage_progress (Foliage_run TREE_SHAPE [(1, 1)] (Some FoliageShaderMaterial)) = Some 2
   \<and> Foliage_progress (Foliage_run TREE_SHAPE [(1, 1), (2, 1)] (Some FoliageShaderMaterial)) = Some 0
   \<and> mesh_progress (updateInstances_run [] 1 [(1, 1)] (Some (newMesh 0))) = Some (3/2)
   \<and> mesh_progress (updateInstances_run [] 1 [(1, 1), (2, 1)] (Some (newMesh 0))) = Some (3/4)"
  by (simp add: Foliage_progress_def mesh_progress_def morph0_def Foliage_useFrame_def
      FoliageShaderMaterial_def updateInstances_def newMesh_def lerp_def Let_def)

section \<open>The gesture classifier\<close>

lemma detectGestures_fist:
  assumes "21 \<le> length landmarks" "avgDistToWrist landmarks < 0.15"
  shows "\<exists>s'. detectGestures photos rnd landmarks s = Some s' \<and> treeState s' = TREE_SHAPE
             \<and> focusedPhotoId s' = focusedPhotoId s"
  using assms by (simp add: detectGestures_def Let_def)

lemma detectGestures_open:
  assumes "21 \<le> length landmarks" "\<not> avgDistToWrist landmarks < 0.15" "avgDistToWrist landmarks > 0.35"
  shows "\<exists>s'. detectGestures photos rnd landmarks s = Some s' \<and> treeState s' = SCATTERED
             \<and> focusedPhotoId s' = focusedPhotoId s"
  using assms by (simp add: detectGestures_def Let_def)

lemma classify_run_fists:
  assumes "\<forall>(rnd, landmarks) \<in> set samples. 21 \<le> length landmarks \<and> avgDistToWrist landmarks < 0.15"
    and "samples \<noteq> [] \<or> treeState s = TREE_SHAPE"
  shows "treeState (classify_run photos samples s) = TREE_SHAPE"
  using assms
proof (induction samples arbitrary: s)
  case Nil
  then show ?case by simp
next
  case (Cons x samples)
  obtain rnd landmarks where x: "x = (rnd, landmarks)" by (cases x)
  have l: "21 \<le> length landmarks" "avgDistToWrist landmarks < 0.15" using Cons.prems(1) x by auto
  from detectGestures_fist [OF l, of photos rnd s] obtain s' where
    s': "detectGestures photos rnd landmarks s = Some s'" "treeState s' = TREE_SHAPE" by blast
  have "treeState (classify_run photos samples s') = TREE_SHAPE"
    using Cons.IH [of s'] Cons.prems(1) s'(2) by simp
  then show ?case by (simp add: x s'(1))
qed

text \<open>
  C2.  For every hand sample (21 landmarks): if the average distance from the four
  fingertips to the wrist is below 0.15 the classifier leaves the mode at
  \<open>TREE_SHAPE\<close> (Formed), whatever the pinch distance is and without touching the
  focused id, and classifying the same sample again any number of times keeps the
  mode at \<open>TREE_SHAPE\<close>; otherwise, if the average is above 0.35, it leaves the mode
  at \<open>SCATTERED\<close>.
\<close>

theorem fist_and_open_hand_rules:
  assumes "21 \<le> length landmarks"
  shows "(avgDistToWrist landmarks < 0.15 \<longrightarrow>
            (\<exists>s'. detectGestures photos rnd landmarks s = Some s' \<and> treeState s' = TREE_SHAPE
                  \<and> focusedPhotoId s' = focusedPhotoId s
                  \<and> (\<forall>n. treeState (classify_run photos (replicate n (rnd, landmarks)) s') = TREE_SHAPE)))
       \<and> (\<not> avgDistToWrist landmarks < 0.15 \<and> avgDistToWrist landmarks > 0.35 \<longrightarrow>
            (\<exists>s'. detectGestures photos rnd landmarks s = Some s' \<and> treeState s' = SCATTERED))"
proof (intro conjI impI)
  assume a: "avgDistToWrist landmarks < 0.15"
  from detectGestures_fist [OF assms a, of photos rnd s] obtain s' where
    s': "detectGestures photos rnd landmarks s = Some s'" "treeState s' = TREE_SHAPE"
        "focusedPhotoId s' = focusedPhotoId s" by blast
  have "\<forall>n. treeState (classify_run photos (replicate n (rnd, landmarks)) s') = TREE_SHAPE"
    using classify_run_fists [of "replicate n (rnd, landmarks)" s' photos for n] assms a s'(2) by auto
  then show "\<exists>s'. detectGestures photos rnd landmarks s = Some s' \<and> treeState s' = TREE_SHAPE
                  \<and> focusedPhotoId s' = focusedPhotoId s
                  \<and> (\<forall>n. treeState (classify_run photos (replicate n (rnd, landmarks)) s') = TREE_SHAPE)"
    using s' by blast
next
  assume a: "\<not> avgDistToWrist landmarks < 0.15 \<and> avgDistToWrist landmarks > 0.35"
  then show "\<exists>s'. detectGestures photos rnd landmarks s = Some s' \<and> treeState s' = SCATTERED"
    using detectGestures_open [OF assms, of photos rnd s] by blast
qed


theorem fist_and_open_hand_rules_witness:
  "21 \<le> length (replicate 21 (Vector3 0 0 0))
   \<and> avgDistToWrist (replicate 21 (Vector3 0 0 0)) < 0.15
   \<and> (\<exists>s'. detectGestures [] 0 (replicate 21 (Vector3 0 0 0)) Experience_mount = Some s'
           \<and> treeState s' = TREE_SHAPE
           \<and> (\<forall>n. treeState (classify_run [] (replicate n (0, replicate 21 (Vector3 0 0 0))) s') = TREE_SHAPE))"
proof -
  have h1: "21 \<le> length (replicate 21 (Vector3 0 0 0))" by simp
  have h2: "avgDistToWrist (replicate 21 (Vector3 0 0 0)) < 0.15"
    by (simp add: avgDistToWrist_def dist3_def)
  from fist_and_open_hand_rules [OF h1, of "[]" 0 Experience_mount] h2
  show ?thesis using h1 by blast
qed

lemma random_index_in_range:
  assumes "0 \<le> rnd" "rnd < 1" "0 < n"
  shows "0 \<le> \<lfloor>rnd * real n\<rfloor>" "nat \<lfloor>rnd * real n\<rfloor> < n"
proof -
  have "0 \<le> rnd * real n" using assms by simp
  then show a: "0 \<le> \<lfloor>rnd * real n\<rfloor>" by simp
  have "rnd * real n < 1 * real n" using assms by (intro mult_strict_right_mono) simp_all
  then have "\<lfloor>rnd * real n\<rfloor> < int n" by (simp add: floor_less_iff)
  then show "nat \<lfloor>rnd * real n\<rfloor> < n" using a by (simp only: nat_less_iff)
qed

lemma photo_id_exists:
  assumes "i < length photos"
  shows "''photo-'' @ string_of_nat i \<in> photoId ` set (UserPhotos_useMemo photos rnd')"
proof -
  have "i \<in> set [0..<length photos]" using assms by simp
  then have "photoItem (photos ! i) i rnd' (9 * i) \<in> set (UserPhotos_useMemo photos rnd')"
    unfolding UserPhotos_useMemo_def set_map by (rule imageI)
  moreover have "photoId (photoItem (photos ! i) i rnd' (9 * i)) = ''photo-'' @ string_of_nat i"
    by (simp add: photoItem_def Let_def)
  ultimately show ?thesis by (metis image_eqI)
qed

text \<open>
  C3.  For every hand sample (21 landmarks) whose average fingertip-to-wrist
  distance lies in \<open>[0.15, 0.35]\<close> and whose thumb-tip-to-index-tip distance is below
  0.05, and every value \<open>rnd\<close> in \<open>[0, 1)\<close> of \<open>Math.random()\<close>: if the mode is not
  \<open>FOCUS\<close> and there is a photo, the classifier sets the mode to \<open>FOCUS\<close> and the
  focused id to \<open>photo-i\<close> for some \<open>i\<close> below the number of photos, which is the id of
  one of the photo entities \<open>UserPhotos\<close> builds; if the mode is \<open>FOCUS\<close> already or
  there is no photo, mode and focused id stay as they are.
\<close>

theorem pinch_rule:
  assumes "21 \<le> length landmarks"
    and "0.15 \<le> avgDistToWrist landmarks \<and> avgDistToWrist landmarks \<le> 0.35"
    and "pinchDist landmarks < 0.05"
    and "0 \<le> rnd \<and> rnd < 1"
  shows "(treeState s \<noteq> FOCUS \<and> photos \<noteq> [] \<longrightarrow>
           (\<exists>s' i. detectGestures photos rnd landmarks s = Some s' \<and> treeState s' = FOCUS
                  \<and> i < length photos
                  \<and> focusedPhotoId s' = Some (''photo-'' @ string_of_nat i)
                  \<and> (\<forall>rnd'. ''photo-'' @ string_of_nat i \<in> photoId ` set (UserPhotos_useMemo photos rnd'))))
       \<and> (treeState s = FOCUS \<or> photos = [] \<longrightarrow>
           (\<exists>s'. detectGestures photos rnd landmarks s = Some s' \<and> treeState s' = treeState s
                 \<and> focusedPhotoId s' = focusedPhotoId s))"
proof (intro conjI impI)
  assume a: "treeState s \<noteq> FOCUS \<and> photos \<noteq> []"
  define i where "i = nat \<lfloor>rnd * real (length photos)\<rfloor>"
  have n: "0 < length photos" using a by simp
  have r: "0 \<le> \<lfloor>rnd * real (length photos)\<rfloor>" "i < length photos"
    unfolding i_def using random_index_in_range [OF _ _ n, of rnd] assms(4) by simp_all
  have str: "string_of_int \<lfloor>rnd * real (length photos)\<rfloor> = string_of_nat i"
    using r(1) by (simp add: string_of_int_def i_def)
  have "\<exists>s'. detectGestures photos rnd landmarks s = Some s' \<and> treeState s' = FOCUS
          \<and> focusedPhotoId s' = Some (''photo-'' @ string_of_nat i)"
    using assms(1-3) a n by (simp add: detectGestures_def Let_def str)
  then show "\<exists>s' i. detectGestures photos rnd landmarks s = Some s' \<and> treeState s' = FOCUS
                  \<and> i < length photos
                  \<and> focusedPhotoId s' = Some (''photo-'' @ string_of_nat i)
                  \<and> (\<forall>rnd'. ''photo-'' @ string_of_nat i \<in> photoId ` set (UserPhotos_useMemo photos rnd'))"
    using r(2) photo_id_exists [OF r(2)] by blast
next
  assume a: "treeState s = FOCUS \<or> photos = []"
  show "\<exists>s'. detectGestures photos rnd landmarks s = Some s' \<and> treeState s' = treeState s
                 \<and> focusedPhotoId s' = focusedPhotoId s"
    using assms(1-3) a by (auto simp: detectGestures_def Let_def)
qed

theorem pinch_rule_witness:
  "21 \<le> length (Vector3 0 0 0 # replicate 20 (Vector3 (1/4) 0 0))
   \<and> (0.15 \<le> avgDistToWrist (Vector3 0 0 0 # replicate 20 (Vector3 (1/4) 0 0))
      \<and> avgDistToWrist (Vector3 0 0 0 # replicate 20 (Vector3 (1/4) 0 0)) \<le> 0.35)
   \<and> pinchDist (Vector3 0 0 0 # replicate 20 (Vector3 (1/4) 0 0)) < 0.05
   \<and> ((0::real) \<le> 1/2 \<and> (1/2::real) < 1)
   \<and> treeState Experience_mount \<noteq> FOCUS \<and> [''a.png'', ''b.png''] \<noteq> []
   \<and> (\<exists>s' i. detectGestures [''a.png'', ''b.png''] (1/2) (Vector3 0 0 0 # replicate 20 (Vector3 (1/4) 0 0))
                 Experience_mount = Some s'
            \<and> treeState s' = FOCUS \<and> i < length [''a.png'', ''b.png'']
            \<and> focusedPhotoId s' = Some (''photo-'' @ string_of_nat i))"
proof -
  have h1: "21 \<le> length (Vector3 0 0 0 # replicate 20 (Vector3 (1/4) 0 0))" by simp
  have h2: "0.15 \<le> avgDistToWrist (Vector3 0 0 0 # replicate 20 (Vector3 (1/4) 0 0))
      \<and> avgDistToWrist (Vector3 0 0 0 # replicate 20 (Vector3 (1/4) 0 0)) \<le> 0.35"
    by (simp add: avgDistToWrist_def dist3_def real_sqrt_abs)
  have h3: "pinchDist (Vector3 0 0 0 # replicate 20 (Vector3 (1/4) 0 0)) < 0.05"
    by (simp add: pinchDist_def dist3_def)
  have h4: "(0::real) \<le> 1/2 \<and> (1/2::real) < 1" by simp
  have h5: "treeState Experience_mount \<noteq> FOCUS" by (simp add: Experience_mount_def)
  have h6: "[''a.png'', ''b.png''] \<noteq> []" by simp
  from pinch_rule [OF h1 h2 h3 h4, of Experience_mount "[''a.png'', ''b.png'']"]
  show ?thesis using h1 h2 h3 h4 h5 h6 by blast
qed

section \<open>Frames without a hand signal\<close>

lemma processFrame_no_signal:
  assumes "\<not> frameAvailable inp s \<or> detectForVideo inp = DetectThrows
         \<or> detectForVideo inp = DetectResult None \<or> detectForVideo inp = DetectResult (Some [])
         \<or> (\<exists>hands. detectForVideo inp = DetectResult (Some hands) \<and> hands \<noteq> [] \<and> length (hands ! 0) < 21)"
  shows "processFrame inp s = s \<or> (\<exists>t. processFrame inp s = s\<lparr> lastVideoTimeRef := t \<rparr>)"
proof (cases "videoRef inp")
  case None
  then show ?thesis by (simp add: processFrame_def)
next
  case (Some v)
  show ?thesis
  proof (cases "frameGate inp v s")
    case False
    then show ?thesis using Some by (simp add: processFrame_def)
  next
    case True
    then have av: "frameAvailable inp s" using Some by (simp add: frameAvailable_def)
    have pf: "processFrame inp s =
        (let s' = s\<lparr> lastVideoTimeRef := currentTime v \<rparr>
         in (case detectForVideo inp of
               DetectThrows \<Rightarrow> s'
             | DetectResult None \<Rightarrow> s'
             | DetectResult (Some hands) \<Rightarrow>
                 (if length hands > 0 then
                    (case detectGestures (userPhotos inp) (random inp) (hands ! 0) s' of
                       None \<Rightarrow> s'
                     | Some s'' \<Rightarrow> s'')
                  else s')))"
      using Some True by (simp add: processFrame_def)
    from assms av consider
        "detectForVideo inp = DetectThrows"
      | "detectForVideo inp = DetectResult None"
      | "detectForVideo inp = DetectResult (Some [])"
      | hands where "detectForVideo inp = DetectResult (Some hands)" "hands \<noteq> []" "length (hands ! 0) < 21"
      by blast
    then have "processFrame inp s = s\<lparr> lastVideoTimeRef := currentTime v \<rparr>"
    proof cases
      case 1
      then show ?thesis by (simp add: pf)
    next
      case 2
      then show ?thesis by (simp add: pf)
    next
      case 3
      then show ?thesis by (simp add: pf)
    next
      case 4
      then show ?thesis by (simp add: pf detectGestures_def)
    qed
    then show ?thesis by blast
  qed
qed

lemma Experience_useFrame_fist:
  assumes "videoRef inp = Some v" "frameGate inp v s"
    and "detectForVideo inp = DetectResult (Some (hand # hands))"
    and "21 \<le> length hand" "avgDistToWrist hand < 0.15"
  shows "treeState (Experience_useFrame inp s) = TREE_SHAPE"
proof -
  define s' where "s' = s\<lparr> lastVideoTimeRef := currentTime v \<rparr>"
  from detectGestures_fist [OF assms(4,5), of "userPhotos inp" "random inp" s'] obtain s'' where
    s'': "detectGestures (userPhotos inp) (random inp) hand s' = Some s''" "treeState s'' = TREE_SHAPE"
    by blast
  have "processFrame inp s = s''"
    using assms(1-3) s''(1) by (simp add: processFrame_def s'_def)
  then show ?thesis using s''(2) by (simp add: Experience_useFrame_def Let_def)
qed

text \<open>
  C7.  On a frame where no new video frame is available, or \<open>detectForVideo\<close> throws,
  or it reports no hand (no landmark list, or an empty one), or the classifier
  itself throws on a short landmark list, the frame callback returns with the mode,
  the focused id and the rotation-control signal as they were; and a later frame
  with a fresh video frame and a fist sample is classified as usual.
\<close>

theorem no_signal_keeps_state:
  assumes "\<not> frameAvailable inp s \<or> detectForVideo inp = DetectThrows
         \<or> detectForVideo inp = DetectResult None \<or> detectForVideo inp = DetectResult (Some [])
         \<or> (\<exists>hands. detectForVideo inp = DetectResult (Some hands) \<and> hands \<noteq> [] \<and> length (hands ! 0) < 21)"
  shows "treeState (Experience_useFrame inp s) = treeState s
       \<and> focusedPhotoId (Experience_useFrame inp s) = focusedPhotoId s
       \<and> targetRotation (Experience_useFrame inp s) = targetRotation s
       \<and> (\<forall>inp2 v hand hands.
            videoRef inp2 = Some v \<and> frameGate inp2 v (Experience_useFrame inp s)
            \<and> detectForVideo inp2 = DetectResult (Some (hand # hands))
            \<and> 21 \<le> length hand \<and> avgDistToWrist hand < 0.15
            \<longrightarrow> treeState (Experience_useFrame inp2 (Experience_useFrame inp s)) = TREE_SHAPE)"
proof -
  have "treeState (Experience_useFrame inp s) = treeState s
       \<and> focusedPhotoId (Experience_useFrame inp s) = focusedPhotoId s
       \<and> targetRotation (Experience_useFrame inp s) = targetRotation s"
    using processFrame_no_signal [OF assms] by (auto simp: Experience_useFrame_def Let_def)
  then show ?thesis using Experience_useFrame_fist by blast
qed

theorem no_signal_keeps_state_witness:
  "detectForVideo \<lparr> visionEnabled = True, handLandmarkerRef = True,
       videoRef = Some \<lparr> readyState = 4, paused = False, videoWidth = 1280, videoHeight = 720,
                         currentTime = 1 \<rparr>,
       detectForVideo = DetectThrows, userPhotos = [], random = 0 \<rparr> = DetectThrows
   \<and> treeState (Experience_useFrame \<lparr> visionEnabled = True, handLandmarkerRef = True,
       videoRef = Some \<lparr> readyState = 4, paused = False, videoWidth = 1280, videoHeight = 720,
                         currentTime = 1 \<rparr>,
       detectForVideo = DetectThrows, userPhotos = [], random = 0 \<rparr> Experience_mount)
       = treeState Experience_mount
   \<and> focusedPhotoId (Experience_useFrame \<lparr> visionEnabled = True, handLandmarkerRef = True,
       videoRef = Some \<lparr> readyState = 4, paused = False, videoWidth = 1280, videoHeight = 720,
                         currentTime = 1 \<rparr>,
       detectForVideo = DetectThrows, userPhotos = [], random = 0 \<rparr> Experience_mount)
       = focusedPhotoId Experience_mount
   \<and> targetRotation (Experience_useFrame \<lparr> visionEnabled = True, handLandmarkerRef = True,
       videoRef = Some \<lparr> readyState = 4, paused = False, videoWidth = 1280, videoHeight = 720,
                         currentTime = 1 \<rparr>,
       detectForVideo = DetectThrows, userPhotos = [], random = 0 \<rparr> Experience_mount)
       = targetRotation Experience_mount"
proof -
  define inp where "inp = \<lparr> visionEnabled = True, handLandmarkerRef = True,
       videoRef = Some \<lparr> readyState = 4, paused = False, videoWidth = 1280, videoHeight = 720,
                         currentTime = 1 \<rparr>,
       detectForVideo = DetectThrows, userPhotos = [], random = 0 \<rparr>"
  have h: "detectForVideo inp = DetectThrows" by (simp add: inp_def)
  then have "\<not> frameAvailable inp Experience_mount \<or> detectForVideo inp = DetectThrows
         \<or> detectForVideo inp = DetectResult None \<or> detectForVideo inp = DetectResult (Some [])
         \<or> (\<exists>hands. detectForVideo inp = DetectResult (Some hands) \<and> hands \<noteq> [] \<and> length (hands ! 0) < 21)"
    by blast
  from no_signal_keeps_state [OF this] h show ?thesis unfolding inp_def by blast
qed

section \<open>The focus zoom\<close>

lemma clamp_in_bounds: "lo \<le> hi \<Longrightarrow> lo \<le> clamp v lo hi \<and> clamp v lo hi \<le> hi"
  by (simp add: clamp_def)

lemma clamp_inside: "lo < clamp v lo hi \<Longrightarrow> clamp v lo hi < hi \<Longrightarrow> clamp v lo hi = v"
  by (auto simp: clamp_def max_def min_def split: if_splits)

lemma zoom_step_bounds:
  assumes "5 \<le> focusDistance s \<and> focusDistance s \<le> 40"
  shows "5 \<le> focusDistance (zoom_step e s) \<and> focusDistance (zoom_step e s) \<le> 40"
proof (cases e)
  case (EffectRun b st)
  then show ?thesis using assms by (simp add: PhotoFrame_zoomEffect_def)
next
  case (Wheel d)
  then show ?thesis using assms clamp_in_bounds [of 5 40 "focusDistance s + d * 0.02"]
    by (simp add: handleWheel_def Let_def)
qed

lemma zoom_run_bounds:
  assumes "5 \<le> focusDistance s \<and> focusDistance s \<le> 40"
  shows "5 \<le> focusDistance (zoom_run es s) \<and> focusDistance (zoom_run es s) \<le> 40"
  using assms
proof (induction es arbitrary: s)
  case Nil
  then show ?case by simp
next
  case (Cons e es)
  show ?case using Cons.IH [OF zoom_step_bounds [OF Cons.prems]] by simp
qed

lemma handleWheel_listens: "wheelListener (handleWheel d s) = wheelListener s"
  by (simp add: handleWheel_def Let_def)

lemma wheel_run_unclamped:
  assumes "wheelListener s" "\<forall>d \<in> set (wheel_trace ds s). 5 < d \<and> d < 40"
  shows "focusDistance (zoom_run (map Wheel ds) s) = focusDistance s + 0.02 * sum_list ds"
  using assms
proof (induction ds arbitrary: s)
  case Nil
  then show ?case by simp
next
  case (Cons d ds)
  define s1 where "s1 = handleWheel d s"
  have fd: "focusDistance s1 = clamp (focusDistance s + d * 0.02) 5 40"
    using Cons.prems(1) by (simp add: s1_def handleWheel_def Let_def)
  have "5 < focusDistance s1 \<and> focusDistance s1 < 40" using Cons.prems(2) by (simp add: s1_def)
  then have e: "focusDistance s1 = focusDistance s + d * 0.02"
    using clamp_inside [of 5 "focusDistance s + d * 0.02" 40] by (simp add: fd)
  have l: "wheelListener s1" using Cons.prems(1) by (simp add: s1_def handleWheel_listens)
  have t: "\<forall>d \<in> set (wheel_trace ds s1). 5 < d \<and> d < 40" using Cons.prems(2) by (simp add: s1_def)
  have "focusDistance (zoom_run (map Wheel ds) s1) = focusDistance s1 + 0.02 * sum_list ds"
    using Cons.IH [OF l t] .
  then show ?case by (simp add: s1_def [symmetric] e algebra_simps)
qed

text \<open>
  C8.  After any sequence of effect runs and wheel events on a mounted photo frame
  the focus distance lies in \<open>[5, 40]\<close>; the effect run that enters focus sets it to
  15 and attaches the wheel listener; and while the listener is attached, a sequence
  of wheel deltas that sums to 0 and keeps every distance it produces strictly
  between 5 and 40 brings the distance back to its starting value.
\<close>

theorem focus_zoom_bounded_and_reversible:
  "(5 \<le> focusDistance (zoom_run es PhotoFrame_mount) \<and> focusDistance (zoom_run es PhotoFrame_mount) \<le> 40)
   \<and> focusDistance (zoom_step (EffectRun True FOCUS) s) = 15
   \<and> wheelListener (zoom_step (EffectRun True FOCUS) s)
   \<and> (wheelListener s \<and> (\<forall>d \<in> set (wheel_trace ds s). 5 < d \<and> d < 40) \<and> sum_list ds = 0
        \<longrightarrow> focusDistance (zoom_run (map Wheel ds) s) = focusDistance s)"
proof (intro conjI impI)
  have "5 \<le> focusDistance PhotoFrame_mount \<and> focusDistance PhotoFrame_mount \<le> 40"
    by (simp add: PhotoFrame_mount_def)
  from zoom_run_bounds [OF this, of es]
  show "5 \<le> focusDistance (zoom_run es PhotoFrame_mount)"
    and "focusDistance (zoom_run es PhotoFrame_mount) \<le> 40" by simp_all
  show "focusDistance (zoom_step (EffectRun True FOCUS) s) = 15"
    by (simp add: PhotoFrame_zoomEffect_def)
  show "wheelListener (zoom_step (EffectRun True FOCUS) s)"
    by (simp add: PhotoFrame_zoomEffect_def)
next
  assume a: "wheelListener s \<and> (\<forall>d \<in> set (wheel_trace ds s). 5 < d \<and> d < 40) \<and> sum_list ds = 0"
  then show "focusDistance (zoom_run (map Wheel ds) s) = focusDistance s"
    using wheel_run_unclamped [of s ds] by simp
qed

theorem focus_zoom_bounded_and_reversible_witness:
  "wheelListener (zoom_step (EffectRun True FOCUS) PhotoFrame_mount)
   \<and> wheel_trace [100, - 250, 150] (zoom_step (EffectRun True FOCUS) PhotoFrame_mount) = [17, 12, 15]
   \<and> sum_list [100, - 250, 150 :: real] = 0
   \<and> focusDistance (zoom_run (map Wheel [100, - 250, 150]) (zoom_step (EffectRun True FOCUS) PhotoFrame_mount))
       = focusDistance (zoom_step (EffectRun True FOCUS) PhotoFrame_mount)"
proof -
  have h1: "wheelListener (zoom_step (EffectRun True FOCUS) PhotoFrame_mount)"
    by (simp add: PhotoFrame_zoomEffect_def)
  have tr: "wheel_trace [100, - 250, 150] (zoom_step (EffectRun True FOCUS) PhotoFrame_mount) = [17, 12, 15]"
    by (simp add: PhotoFrame_zoomEffect_def PhotoFrame_mount_def handleWheel_def clamp_def Let_def)
  have h2: "\<forall>d \<in> set (wheel_trace [100, - 250, 150] (zoom_step (EffectRun True FOCUS) PhotoFrame_mount)).
         5 < d \<and> d < 40"
    unfolding tr by simp
  have h3: "sum_list [100, - 250, 150 :: real] = 0" by simp
  from focus_zoom_bounded_and_reversible
    [of "[]" "zoom_step (EffectRun True FOCUS) PhotoFrame_mount" "[100, - 250, 150]"]
  show ?thesis using h1 tr h2 h3 by blast
qed

section \<open>Groups created while the scene is animated\<close>

lemma Gifts_useFrame_Some:
  "mesh_progress (Gifts_useFrame data state time delta (Some m))
     = Some (lerp (morph0 m) (if state = TREE_SHAPE then 1 else 0) (1.5 * delta))"
  by (simp add: Gifts_useFrame_def Let_def morph0_def mesh_progress_def)

lemma updateInstances_progress:
  "mesh_progress (updateInstances (Some m) data target time delta)
     = Some (lerp (morph0 m) target (1.5 * delta))"
  by (simp add: updateInstances_Some mesh_progress_def morph0_def)

lemma morph0_newMesh: "morph0 (newMesh n) = 0"
  by (simp add: morph0_def newMesh_def)

lemma mesh_progress_newMesh: "mesh_progress (Some (newMesh n)) = Some 0"
  by (simp add: mesh_progress_def morph0_newMesh)

lemma length_Gifts_loop: "length (Gifts_loop n rnd k) = n"
  by (induction n arbitrary: k) (simp_all add: Let_def split: prod.splits)

lemma Gifts_useFrame_step:
  "\<exists>m1. Gifts_useFrame data state time delta (Some m) = Some m1
        \<and> morph0 m1 = lerp (morph0 m) (if state = TREE_SHAPE then 1 else 0) (1.5 * delta)"
  by (simp add: Gifts_useFrame_def Let_def morph0_def)

lemma Gifts_progress_run:
  "mesh_progress (Gifts_run data state frames (Some m))
     = Some (morph_run 1.5 (if state = TREE_SHAPE then 1 else 0) (map snd frames) (morph0 m))"
proof (induction frames arbitrary: m)
  case Nil
  then show ?case by (simp add: mesh_progress_def)
next
  case (Cons f frames)
  obtain time delta where f: "f = (time, delta)" by (cases f)
  from Gifts_useFrame_step [of data state time delta m] obtain m1 where
    m1: "Gifts_useFrame data state time delta (Some m) = Some m1"
        "morph0 m1 = lerp (morph0 m) (if state = TREE_SHAPE then 1 else 0) (1.5 * delta)" by blast
  show ?case using Cons.IH [of m1] by (simp add: f m1)
qed

lemma morph_run_rest: "morph_run rate 0 ds 0 = 0"
  by (induction ds) (simp_all add: lerp_def)

lemma PhotoFrame_useFrame_tree:
  "groupRef (PhotoFrame_useFrame slerp env pd TREE_SHAPE b time (s\<lparr> groupRef := Some g \<rparr>))
     = Some \<lparr> gposition = vlerp (gposition g) (tree pd) 0.1,
              gquaternion = slerp (gquaternion g) (setFromEuler (rotation pd)) 0.1,
              gscale = vlerp (gscale g) (Vector3 (scale pd) (scale pd) (scale pd)) 0.1 \<rparr>"
  by (simp add: PhotoFrame_useFrame_def Let_def)

lemma PhotoFrame_useFrame_scatter:
  assumes "state \<noteq> TREE_SHAPE" "\<not> (state = FOCUS \<and> b)"
  shows "groupRef (PhotoFrame_useFrame slerp env pd state b time (s\<lparr> groupRef := Some g \<rparr>))
     = Some \<lparr> gposition = vlerp (gposition g)
                  (Vector3 (vx (scatter pd) + cos (time * speed pd * 0.5) * 0.5)
                           (vy (scatter pd) + sin (time * speed pd) * 0.5)
                           (vz (scatter pd))) 0.1,
              gquaternion = slerp (gquaternion g)
                  (setFromEuler (Euler (ex (rotation pd) + time * 0.2) (ey (rotation pd) + time * 0.3)
                                       (ez (rotation pd)))) 0.1,
              gscale = vlerp (gscale g) (Vector3 (scale pd) (scale pd) (scale pd)) 0.1 \<rparr>"
  using assms by (auto simp: PhotoFrame_useFrame_def Let_def)

lemma group_independence:
  "goldRef (Ornaments_useFrame (d\<lparr> ceramicData := c, satinData := sa, boxData := bx \<rparr>) state time delta
              (refs\<lparr> ceramicRef := rc, satinRef := rs, boxesRef := rb \<rparr>))
     = goldRef (Ornaments_useFrame d state time delta refs)"
  "ceramicRef (Ornaments_useFrame (d\<lparr> goldData := go, satinData := sa, boxData := bx \<rparr>) state time delta
              (refs\<lparr> goldRef := rg, satinRef := rs, boxesRef := rb \<rparr>))
     = ceramicRef (Ornaments_useFrame d state time delta refs)"
  "satinRef (Ornaments_useFrame (d\<lparr> goldData := go, ceramicData := c, boxData := bx \<rparr>) state time delta
              (refs\<lparr> goldRef := rg, ceramicRef := rc, boxesRef := rb \<rparr>))
     = satinRef (Ornaments_useFrame d state time delta refs)"
  "boxesRef (Ornaments_useFrame (d\<lparr> goldData := go, ceramicData := c, satinData := sa \<rparr>) state time delta
              (refs\<lparr> goldRef := rg, ceramicRef := rc, satinRef := rs \<rparr>))
     = boxesRef (Ornaments_useFrame d state time delta refs)"
  "foliage (scene_frame slerp env (sd\<lparr> ornamentsData := od, giftsData := gd, photosData := phd \<rparr>)
              state fid time delta (sc\<lparr> ornaments := orf, gifts := gr, photoFrames := pf \<rparr>))
     = foliage (scene_frame slerp env sd state fid time delta sc)"
  "ornaments (scene_frame slerp env (sd\<lparr> giftsData := gd, photosData := phd \<rparr>)
              state fid time delta (sc\<lparr> foliage := fo, gifts := gr, photoFrames := pf \<rparr>))
     = ornaments (scene_frame slerp env sd state fid time delta sc)"
  "gifts (scene_frame slerp env (sd\<lparr> ornamentsData := od, photosData := phd \<rparr>)
              state fid time delta (sc\<lparr> foliage := fo, ornaments := orf, photoFrames := pf \<rparr>))
     = gifts (scene_frame slerp env sd state fid time delta sc)"
  "photoFrames (scene_frame slerp env (sd\<lparr> ornamentsData := od, giftsData := gd \<rparr>)
              state fid time delta (sc\<lparr> foliage := fo, ornaments := orf, gifts := gr \<rparr>))
     = photoFrames (scene_frame slerp env sd state fid time delta sc)"
  by (simp_all add: Ornaments_useFrame_def scene_frame_def Let_def)


text \<open>
  C9, as the code has it.  A newly created mesh group (an ornament mesh or the gifts
  mesh) holds morph progress 0 whatever the mode is, and every frame takes the
  progress \<open>p\<close> of a mesh to \<open>lerp p target (1.5 * delta)\<close>.  While the mode is not
  \<open>TREE_SHAPE\<close> the progress of a new group therefore stays 0 on every frame, which is
  the value the mode implies; in mode \<open>TREE_SHAPE\<close> it starts at 0, not at 1, and over
  frames whose deltas are non-negative and keep \<open>1.5 * delta \<le> 1\<close> it is non-decreasing,
  stays in \<open>[0, 1]\<close> and is within \<open>exp (- 1.5 * T)\<close> of 1.  A photo frame is mounted at
  the origin with the identity rotation and scale 1, and on every frame on which it
  is not the focused photo of \<open>FOCUS\<close> mode it moves a tenth of the remaining way from
  its current pose to the pose of the mode.  What a frame does to one group (each
  ornament mesh; the foliage, the ornaments, the gifts, the photo frames) does not
  change when the meshes and the data of all the other groups are replaced.
\<close>

theorem new_group_starts_at_zero:
  "mesh_progress (Some (newMesh n)) = Some 0
   \<and> mesh_progress (updateInstances (Some (newMesh n)) data (if state = TREE_SHAPE then 1 else 0) time delta)
       = Some (lerp 0 (if state = TREE_SHAPE then 1 else 0) (1.5 * delta))
   \<and> mesh_progress (Gifts_useFrame gdata state time delta (Some (newMesh n)))
       = Some (lerp 0 (if state = TREE_SHAPE then 1 else 0) (1.5 * delta))
   \<and> mesh_progress (updateInstances (Some m) data (if state = TREE_SHAPE then 1 else 0) time delta)
       = Some (lerp (morph0 m) (if state = TREE_SHAPE then 1 else 0) (1.5 * delta))
   \<and> mesh_progress (Gifts_useFrame gdata state time delta (Some m))
       = Some (lerp (morph0 m) (if state = TREE_SHAPE then 1 else 0) (1.5 * delta))
   \<and> (state \<noteq> TREE_SHAPE \<longrightarrow>
        mesh_progress (updateInstances_run data (if state = TREE_SHAPE then 1 else 0) frames
                         (Some (newMesh n))) = Some 0
        \<and> mesh_progress (Gifts_run gdata state frames (Some (newMesh n))) = Some 0)
   \<and> (stable_deltas 1.5 frames \<longrightarrow>
        (\<exists>p q. mesh_progress (updateInstances_run data 1 (take k frames) (Some (newMesh n))) = Some p
              \<and> mesh_progress (updateInstances_run data 1 (take (Suc k) frames) (Some (newMesh n))) = Some q
              \<and> 0 \<le> p \<and> p \<le> q \<and> q \<le> 1
              \<and> 1 - p \<le> exp (- 1.5 * sum_list (map snd (take k frames))))
        \<and> (\<exists>p q. mesh_progress (Gifts_run gdata TREE_SHAPE (take k frames) (Some (newMesh n))) = Some p
              \<and> mesh_progress (Gifts_run gdata TREE_SHAPE (take (Suc k) frames) (Some (newMesh n))) = Some q
              \<and> 0 \<le> p \<and> p \<le> q \<and> q \<le> 1
              \<and> 1 - p \<le> exp (- 1.5 * sum_list (map snd (take k frames)))))
   \<and> groupRef PhotoFrame_mount
       = Some \<lparr> gposition = Vector3 0 0 0, gquaternion = Quaternion 0 0 0 1, gscale = Vector3 1 1 1 \<rparr>
   \<and> groupRef (PhotoFrame_useFrame slerp env pd TREE_SHAPE b time (s\<lparr> groupRef := Some g \<rparr>))
       = Some \<lparr> gposition = vlerp (gposition g) (tree pd) 0.1,
                gquaternion = slerp (gquaternion g) (setFromEuler (rotation pd)) 0.1,
                gscale = vlerp (gscale g) (Vector3 (scale pd) (scale pd) (scale pd)) 0.1 \<rparr>
   \<and> (state \<noteq> TREE_SHAPE \<and> \<not> (state = FOCUS \<and> b) \<longrightarrow>
        groupRef (PhotoFrame_useFrame slerp env pd state b time (s\<lparr> groupRef := Some g \<rparr>))
          = Some \<lparr> gposition = vlerp (gposition g)
                       (Vector3 (vx (scatter pd) + cos (time * speed pd * 0.5) * 0.5)
                                (vy (scatter pd) + sin (time * speed pd) * 0.5)
                                (vz (scatter pd))) 0.1,
                   gquaternion = slerp (gquaternion g)
                       (setFromEuler (Euler (ex (rotation pd) + time * 0.2) (ey (rotation pd) + time * 0.3)
                                            (ez (rotation pd)))) 0.1,
                   gscale = vlerp (gscale g) (Vector3 (scale pd) (scale pd) (scale pd)) 0.1 \<rparr>)
   \<and> goldRef (Ornaments_useFrame (d\<lparr> ceramicData := c, satinData := sa, boxData := bx \<rparr>) state time delta
                (refs\<lparr> ceramicRef := rc, satinRef := rs, boxesRef := rb \<rparr>))
       = goldRef (Ornaments_useFrame d state time delta refs)
   \<and> ceramicRef (Ornaments_useFrame (d\<lparr> goldData := go, satinData := sa, boxData := bx \<rparr>) state time delta
                (refs\<lparr> goldRef := rg, satinRef := rs, boxesRef := rb \<rparr>))
       = ceramicRef (Ornaments_useFrame d state time delta refs)
   \<and> satinRef (Ornaments_useFrame (d\<lparr> goldData := go, ceramicData := c, boxData := bx \<rparr>) state time delta
                (refs\<lparr> goldRef := rg, ceramicRef := rc, boxesRef := rb \<rparr>))
       = satinRef (Ornaments_useFrame d state time delta refs)
   \<and> boxesRef (Ornaments_useFrame (d\<lparr> goldData := go, ceramicData := c, satinData := sa \<rparr>) state time delta
                (refs\<lparr> goldRef := rg, ceramicRef := rc, satinRef := rs \<rparr>))
       = boxesRef (Ornaments_useFrame d state time delta refs)
   \<and> foliage (scene_frame slerp env (sd\<lparr> ornamentsData := od, giftsData := gd, photosData := phd \<rparr>)
                state fid time delta (sc\<lparr> ornaments := orf, gifts := gr, photoFrames := pf \<rparr>))
       = foliage (scene_frame slerp env sd state fid time delta sc)
   \<and> ornaments (scene_frame slerp env (sd\<lparr> giftsData := gd, photosData := phd \<rparr>)
                state fid time delta (sc\<lparr> foliage := fo, gifts := gr, photoFrames := pf \<rparr>))
       = ornaments (scene_frame slerp env sd state fid time delta sc)
   \<and> gifts (scene_frame slerp env (sd\<lparr> ornamentsData := od, photosData := phd \<rparr>)
                state fid time delta (sc\<lparr> foliage := fo, ornaments := orf, photoFrames := pf \<rparr>))
       = gifts (scene_frame slerp env sd state fid time delta sc)
   \<and> photoFrames (scene_frame slerp env (sd\<lparr> ornamentsData := od, giftsData := gd \<rparr>)
                state fid time delta (sc\<lparr> foliage := fo, ornaments := orf, gifts := gr \<rparr>))
       = photoFrames (scene_frame slerp env sd state fid time delta sc)"
proof -
  have first:
    "mesh_progress (Some (newMesh n)) = Some 0"
    "mesh_progress (updateInstances (Some (newMesh n)) data (if state = TREE_SHAPE then 1 else 0) time delta)
       = Some (lerp 0 (if state = TREE_SHAPE then 1 else 0) (1.5 * delta))"
    "mesh_progress (Gifts_useFrame gdata state time delta (Some (newMesh n)))
       = Some (lerp 0 (if state = TREE_SHAPE then 1 else 0) (1.5 * delta))"
    by (simp_all only: mesh_progress_newMesh updateInstances_progress Gifts_useFrame_Some morph0_newMesh)
  have step:
    "mesh_progress (updateInstances (Some m) data (if state = TREE_SHAPE then 1 else 0) time delta)
       = Some (lerp (morph0 m) (if state = TREE_SHAPE then 1 else 0) (1.5 * delta))"
    "mesh_progress (Gifts_useFrame gdata state time delta (Some m))
       = Some (lerp (morph0 m) (if state = TREE_SHAPE then 1 else 0) (1.5 * delta))"
    by (simp_all only: updateInstances_progress Gifts_useFrame_Some)
  have rest: "state \<noteq> TREE_SHAPE \<longrightarrow>
        mesh_progress (updateInstances_run data (if state = TREE_SHAPE then 1 else 0) frames
                         (Some (newMesh n))) = Some 0
        \<and> mesh_progress (Gifts_run gdata state frames (Some (newMesh n))) = Some 0"
    by (simp add: mesh_progress_run Gifts_progress_run morph0_newMesh morph_run_rest)
  have rise: "stable_deltas 1.5 frames \<longrightarrow>
        (\<exists>p q. mesh_progress (updateInstances_run data 1 (take k frames) (Some (newMesh n))) = Some p
              \<and> mesh_progress (updateInstances_run data 1 (take (Suc k) frames) (Some (newMesh n))) = Some q
              \<and> 0 \<le> p \<and> p \<le> q \<and> q \<le> 1
              \<and> 1 - p \<le> exp (- 1.5 * sum_list (map snd (take k frames))))
        \<and> (\<exists>p q. mesh_progress (Gifts_run gdata TREE_SHAPE (take k frames) (Some (newMesh n))) = Some p
              \<and> mesh_progress (Gifts_run gdata TREE_SHAPE (take (Suc k) frames) (Some (newMesh n))) = Some q
              \<and> 0 \<le> p \<and> p \<le> q \<and> q \<le> 1
              \<and> 1 - p \<le> exp (- 1.5 * sum_list (map snd (take k frames))))"
  proof
    assume st: "stable_deltas 1.5 frames"
    show "(\<exists>p q. mesh_progress (updateInstances_run data 1 (take k frames) (Some (newMesh n))) = Some p
              \<and> mesh_progress (updateInstances_run data 1 (take (Suc k) frames) (Some (newMesh n))) = Some q
              \<and> 0 \<le> p \<and> p \<le> q \<and> q \<le> 1
              \<and> 1 - p \<le> exp (- 1.5 * sum_list (map snd (take k frames))))
        \<and> (\<exists>p q. mesh_progress (Gifts_run gdata TREE_SHAPE (take k frames) (Some (newMesh n))) = Some p
              \<and> mesh_progress (Gifts_run gdata TREE_SHAPE (take (Suc k) frames) (Some (newMesh n))) = Some q
              \<and> 0 \<le> p \<and> p \<le> q \<and> q \<le> 1
              \<and> 1 - p \<le> exp (- 1.5 * sum_list (map snd (take k frames))))"
      using morph_run_prefix_facts [of "1.5" frames k] st
      by (simp add: mesh_progress_run Gifts_progress_run morph0_newMesh)
  qed
  have mount: "groupRef PhotoFrame_mount
       = Some \<lparr> gposition = Vector3 0 0 0, gquaternion = Quaternion 0 0 0 1, gscale = Vector3 1 1 1 \<rparr>"
    by (simp add: PhotoFrame_mount_def)
  have sca: "state \<noteq> TREE_SHAPE \<and> \<not> (state = FOCUS \<and> b) \<longrightarrow>
        groupRef (PhotoFrame_useFrame slerp env pd state b time (s\<lparr> groupRef := Some g \<rparr>))
          = Some \<lparr> gposition = vlerp (gposition g)
                       (Vector3 (vx (scatter pd) + cos (time * speed pd * 0.5) * 0.5)
                                (vy (scatter pd) + sin (time * speed pd) * 0.5)
                                (vz (scatter pd))) 0.1,
                   gquaternion = slerp (gquaternion g)
                       (setFromEuler (Euler (ex (rotation pd) + time * 0.2) (ey (rotation pd) + time * 0.3)
                                            (ez (rotation pd)))) 0.1,
                   gscale = vlerp (gscale g) (Vector3 (scale pd) (scale pd) (scale pd)) 0.1 \<rparr>"
    by (intro impI PhotoFrame_useFrame_scatter) simp_all
  show ?thesis
    by (intro conjI first step rest rise mount PhotoFrame_useFrame_tree sca group_independence)
qed


theorem new_group_starts_at_zero_witness:
  "SCATTERED \<noteq> TREE_SHAPE
   \<and> stable_deltas 1.5 [(1/60, 1/60), (2/60, 1/60)]
   \<and> \<not> (SCATTERED = FOCUS \<and> True)
   \<and> mesh_progress (updateInstances_run (goldData (Ornaments_useMemo 600 (\<lambda>k. 1/2)))
         (if SCATTERED = TREE_SHAPE then 1 else 0) [(1/60, 1/60), (2/60, 1/60)] (Some (newMesh 180))) = Some 0
   \<and> mesh_progress (Gifts_run (Gifts_useMemo (\<lambda>k. 1/2)) SCATTERED [(1/60, 1/60), (2/60, 1/60)]
         (Some (newMesh 40))) = Some 0
   \<and> (\<exists>p q. mesh_progress (updateInstances_run (goldData (Ornaments_useMemo 600 (\<lambda>k. 1/2))) 1
                  (take 1 [(1/60, 1/60), (2/60, 1/60)]) (Some (newMesh 180))) = Some p
          \<and> mesh_progress (updateInstances_run (goldData (Ornaments_useMemo 600 (\<lambda>k. 1/2))) 1
                  (take (Suc 1) [(1/60, 1/60), (2/60, 1/60)]) (Some (newMesh 180))) = Some q
          \<and> 0 \<le> p \<and> p \<le> q \<and> q \<le> 1
          \<and> 1 - p \<le> exp (- 1.5 * sum_list (map snd (take 1 [(1/60 :: real, 1/60), (2/60, 1/60)]))))
   \<and> (\<exists>p q. mesh_progress (Gifts_run (Gifts_useMemo (\<lambda>k. 1/2)) TREE_SHAPE
                  (take 1 [(1/60, 1/60), (2/60, 1/60)]) (Some (newMesh 40))) = Some p
          \<and> mesh_progress (Gifts_run (Gifts_useMemo (\<lambda>k. 1/2)) TREE_SHAPE
                  (take (Suc 1) [(1/60, 1/60), (2/60, 1/60)]) (Some (newMesh 40))) = Some q
          \<and> 0 \<le> p \<and> p \<le> q \<and> q \<le> 1
          \<and> 1 - p \<le> exp (- 1.5 * sum_list (map snd (take 1 [(1/60 :: real, 1/60), (2/60, 1/60)]))))
   \<and> groupRef (PhotoFrame_useFrame (\<lambda>a b t. b)
         \<lparr> cameraPosition = Vector3 0 2 25, getWorldDirection = Vector3 0 0 (- 1),
           cameraQuaternion = Quaternion 0 0 0 1, parent = None \<rparr>
         (photoItem ''a.png'' 0 (\<lambda>k. 1/2) 0) SCATTERED True 0
         (PhotoFrame_mount\<lparr> groupRef := Some \<lparr> gposition = Vector3 0 0 0,
             gquaternion = Quaternion 0 0 0 1, gscale = Vector3 1 1 1 \<rparr> \<rparr>))
       = Some \<lparr> gposition = vlerp (gposition \<lparr> gposition = Vector3 0 0 0,
                     gquaternion = Quaternion 0 0 0 1, gscale = Vector3 1 1 1 \<rparr>)
                   (Vector3 (vx (scatter (photoItem ''a.png'' 0 (\<lambda>k. 1/2) 0))
                               + cos (0 * speed (photoItem ''a.png'' 0 (\<lambda>k. 1/2) 0) * 0.5) * 0.5)
                            (vy (scatter (photoItem ''a.png'' 0 (\<lambda>k. 1/2) 0))
                               + sin (0 * speed (photoItem ''a.png'' 0 (\<lambda>k. 1/2) 0)) * 0.5)
                            (vz (scatter (photoItem ''a.png'' 0 (\<lambda>k. 1/2) 0)))) 0.1,
                gquaternion = (\<lambda>a b t. b) (gquaternion \<lparr> gposition = Vector3 0 0 0,
                     gquaternion = Quaternion 0 0 0 1, gscale = Vector3 1 1 1 \<rparr>)
                   (setFromEuler (Euler (ex (rotation (photoItem ''a.png'' 0 (\<lambda>k. 1/2) 0)) + 0 * 0.2)
                                        (ey (rotation (photoItem ''a.png'' 0 (\<lambda>k. 1/2) 0)) + 0 * 0.3)
                                        (ez (rotation (photoItem ''a.png'' 0 (\<lambda>k. 1/2) 0))))) 0.1,
                gscale = vlerp (gscale \<lparr> gposition = Vector3 0 0 0,
                     gquaternion = Quaternion 0 0 0 1, gscale = Vector3 1 1 1 \<rparr>)
                   (Vector3 (scale (photoItem ''a.png'' 0 (\<lambda>k. 1/2) 0))
                            (scale (photoItem ''a.png'' 0 (\<lambda>k. 1/2) 0))
                            (scale (photoItem ''a.png'' 0 (\<lambda>k. 1/2) 0))) 0.1 \<rparr>"
proof -
  define fr :: "(real \<times> real) list" where "fr = [(1/60, 1/60), (2/60, 1/60)]"
  define gd where "gd = goldData (Ornaments_useMemo 600 (\<lambda>k. 1/2))"
  define gf where "gf = Gifts_useMemo (\<lambda>k. 1/2)"
  define pd where "pd = photoItem ''a.png'' 0 (\<lambda>k. 1/2) 0"
  define g0 where "g0 = \<lparr> gposition = Vector3 0 0 0, gquaternion = Quaternion 0 0 0 1,
                           gscale = Vector3 1 1 1 \<rparr>"
  define env0 where "env0 = \<lparr> cameraPosition = Vector3 0 2 25, getWorldDirection = Vector3 0 0 (- 1),
           cameraQuaternion = Quaternion 0 0 0 1, parent = None \<rparr>"
  have h1: "SCATTERED \<noteq> TREE_SHAPE" by simp
  have h2: "stable_deltas 1.5 fr" by (simp add: stable_deltas_def fr_def)
  have h3: "\<not> (SCATTERED = FOCUS \<and> True)" by simp
  note a = new_group_starts_at_zero [where n = 180 and data = gd and state = SCATTERED
      and frames = fr and k = 1 and b = True and slerp = "\<lambda>a b t. b" and env = env0 and pd = pd
      and time = 0 and s = PhotoFrame_mount and g = g0]
  note b = new_group_starts_at_zero [where n = 40 and gdata = gf and state = SCATTERED
      and frames = fr and k = 1]
  note c1 = a [THEN conjunct2, THEN conjunct2, THEN conjunct2, THEN conjunct2, THEN conjunct2, THEN conjunct1, THEN mp, OF h1, THEN conjunct1]
  note c2 = b [THEN conjunct2, THEN conjunct2, THEN conjunct2, THEN conjunct2, THEN conjunct2, THEN conjunct1, THEN mp, OF h1, THEN conjunct2]
  note c3 = a [THEN conjunct2, THEN conjunct2, THEN conjunct2, THEN conjunct2, THEN conjunct2, THEN conjunct2, THEN conjunct1, THEN mp, OF h2, THEN conjunct1]
  note c4 = b [THEN conjunct2, THEN conjunct2, THEN conjunct2, THEN conjunct2, THEN conjunct2, THEN conjunct2, THEN conjunct1, THEN mp, OF h2, THEN conjunct2]
  note c5 = a [THEN conjunct2, THEN conjunct2, THEN conjunct2, THEN conjunct2, THEN conjunct2, THEN conjunct2, THEN conjunct2, THEN conjunct2, THEN conjunct2, THEN conjunct1, THEN mp, OF conjI [OF h1 h3]]
  show ?thesis
    by (intro conjI h1 h2 [unfolded fr_def] h3
        c1 [unfolded fr_def gd_def] c2 [unfolded fr_def gf_def]
        c3 [unfolded fr_def gd_def] c4 [unfolded fr_def gf_def]
        c5 [unfolded pd_def g0_def env0_def])
qed


text \<open>
  C9 as stated fails in Formed mode: a group mounted while the mode is \<open>TREE_SHAPE\<close>
  holds progress 0, not 1, and after its first frame of 1/60 s it is at 1/40.
\<close>

theorem new_group_in_formed_mode_starts_at_zero:
  "mesh_progress (goldRef (Ornaments_mount (Ornaments_useMemo 600 (\<lambda>k. 1/2)))) = Some 0
   \<and> mesh_progress (goldRef (Ornaments_useFrame (Ornaments_useMemo 600 (\<lambda>k. 1/2)) TREE_SHAPE 0 (1/60)
         (Ornaments_mount (Ornaments_useMemo 600 (\<lambda>k. 1/2))))) = Some (1/40)
   \<and> mesh_progress (Gifts_useFrame (Gifts_useMemo (\<lambda>k. 1/2)) TREE_SHAPE 0 (1/60) (Some (newMesh 40)))
       = Some (1/40)"
  by (simp add: Ornaments_mount_def Ornaments_useFrame_def updateInstances_progress Gifts_useFrame_Some
      morph0_newMesh mesh_progress_newMesh lerp_def)

section \<open>The focused id outside focus mode\<close>

lemma PhotoFrame_useFrame_ignores_focus:
  "state \<noteq> FOCUS \<Longrightarrow>
     PhotoFrame_useFrame slerp env data state b1 time s = PhotoFrame_useFrame slerp env data state b2 time s"
  by (simp add: PhotoFrame_useFrame_def)

lemma UserPhotos_useFrame_ignores_focus:
  "state \<noteq> FOCUS \<Longrightarrow>
     UserPhotos_useFrame slerp env pd state f1 time frs = UserPhotos_useFrame slerp env pd state f2 time frs"
  unfolding UserPhotos_useFrame_def
  by (intro map_cong refl) (auto intro: PhotoFrame_useFrame_ignores_focus)

lemma scene_frame_ignores_focus:
  "state \<noteq> FOCUS \<Longrightarrow>
     scene_frame slerp env d state f1 time delta sc = scene_frame slerp env d state f2 time delta sc"
  by (simp add: scene_frame_def UserPhotos_useFrame_ignores_focus [of state slerp env _ f1 time _ f2])

lemma scene_run_ignores_focus:
  assumes "\<forall>(env, state, f1, f2, time, delta) \<in> set frames. state \<noteq> FOCUS"
  shows "scene_run slerp d (map (\<lambda>(env, state, f1, f2, time, delta). (env, state, f1, time, delta)) frames) sc
       = scene_run slerp d (map (\<lambda>(env, state, f1, f2, time, delta). (env, state, f2, time, delta)) frames) sc"
  using assms
proof (induction frames arbitrary: sc)
  case Nil
  then show ?case by simp
next
  case (Cons x frames)
  obtain env state f1 f2 time delta where x: "x = (env, state, f1, f2, time, delta)"
    by (cases x) auto
  have st: "state \<noteq> FOCUS" using Cons.prems x by simp
  have rest: "\<forall>(env, state, f1, f2, time, delta) \<in> set frames. state \<noteq> FOCUS"
    using Cons.prems by auto
  show ?case
    using Cons.IH [OF rest] scene_frame_ignores_focus [OF st, of slerp env d f1 time delta sc f2]
    by (simp add: x)
qed

text \<open>
  C10.  Take any run of frames none of which is rendered in \<open>FOCUS\<close> mode, and give
  each frame two focused ids \<open>f1\<close> and \<open>f2\<close> (either may be \<open>None\<close>).  The run that
  uses the first ids and the run that uses the second ones leave the same scene after
  every number \<open>n\<close> of frames: the same uniforms, instance transforms, and photo
  positions, quaternions and scales.  The zoom effect outside \<open>FOCUS\<close> does not depend
  on whether the photo is the focused one either, and \<open>toggleState\<close> never enters
  \<open>FOCUS\<close>.
\<close>

theorem focused_id_ignored_outside_focus:
  assumes "\<forall>(env, state, f1, f2, time, delta) \<in> set frames. state \<noteq> FOCUS"
  shows "scene_run slerp d
           (map (\<lambda>(env, state, f1, f2, time, delta). (env, state, f1, time, delta)) (take n frames)) sc
       = scene_run slerp d
           (map (\<lambda>(env, state, f1, f2, time, delta). (env, state, f2, time, delta)) (take n frames)) sc
       \<and> (\<forall>state b1 b2 s. state \<noteq> FOCUS \<longrightarrow>
             PhotoFrame_zoomEffect b1 state s = PhotoFrame_zoomEffect b2 state s)
       \<and> (\<forall>prev. toggleState prev \<noteq> FOCUS)"
proof -
  have "\<forall>(env, state, f1, f2, time, delta) \<in> set (take n frames). state \<noteq> FOCUS"
    using assms by (auto dest!: in_set_takeD)
  then have "scene_run slerp d
           (map (\<lambda>(env, state, f1, f2, time, delta). (env, state, f1, time, delta)) (take n frames)) sc
       = scene_run slerp d
           (map (\<lambda>(env, state, f1, f2, time, delta). (env, state, f2, time, delta)) (take n frames)) sc"
    by (rule scene_run_ignores_focus)
  moreover have "\<forall>state b1 b2 s. state \<noteq> FOCUS \<longrightarrow>
             PhotoFrame_zoomEffect b1 state s = PhotoFrame_zoomEffect b2 state s"
    by (simp add: PhotoFrame_zoomEffect_def)
  moreover have "\<forall>prev. toggleState prev \<noteq> FOCUS"
    by (simp add: toggleState_def)
  ultimately show ?thesis by blast
qed

theorem focused_id_ignored_outside_focus_witness:
  "SCATTERED \<noteq> FOCUS
   \<and> scene_run (\<lambda>a b t. b)
        \<lparr> ornamentsData = Ornaments_useMemo 600 (\<lambda>k. 1/2), giftsData = [],
          photosData = UserPhotos_useMemo [''a.png''] (\<lambda>k. 1/2) \<rparr>
        (map (\<lambda>(env, state, f1, f2, time, delta). (env, state, f1, time, delta))
          (take 1 [(\<lparr> cameraPosition = Vector3 0 2 25, getWorldDirection = Vector3 0 0 (- 1),
                       cameraQuaternion = Quaternion 0 0 0 1, parent = None \<rparr>,
                    SCATTERED, Some ''photo-0'', None :: string option, 1/60, 1/60)]))
        (scene_mount \<lparr> ornamentsData = Ornaments_useMemo 600 (\<lambda>k. 1/2), giftsData = [],
                       photosData = UserPhotos_useMemo [''a.png''] (\<lambda>k. 1/2) \<rparr>)
     = scene_run (\<lambda>a b t. b)
        \<lparr> ornamentsData = Ornaments_useMemo 600 (\<lambda>k. 1/2), giftsData = [],
          photosData = UserPhotos_useMemo [''a.png''] (\<lambda>k. 1/2) \<rparr>
        (map (\<lambda>(env, state, f1, f2, time, delta). (env, state, f2, time, delta))
          (take 1 [(\<lparr> cameraPosition = Vector3 0 2 25, getWorldDirection = Vector3 0 0 (- 1),
                       cameraQuaternion = Quaternion 0 0 0 1, parent = None \<rparr>,
                    SCATTERED, Some ''photo-0'', None :: string option, 1/60, 1/60)]))
        (scene_mount \<lparr> ornamentsData = Ornaments_useMemo 600 (\<lambda>k. 1/2), giftsData = [],
                       photosData = UserPhotos_useMemo [''a.png''] (\<lambda>k. 1/2) \<rparr>)"
proof -
  define frames :: "(camera_env \<times> TreeState \<times> string option \<times> string option \<times> real \<times> real) list"
    where "frames = [(\<lparr> cameraPosition = Vector3 0 2 25, getWorldDirection = Vector3 0 0 (- 1),
                       cameraQuaternion = Quaternion 0 0 0 1, parent = None \<rparr>,
                    SCATTERED, Some ''photo-0'', None, 1/60, 1/60)]"
  have h: "\<forall>(env, state, f1, f2, time, delta) \<in> set frames. state \<noteq> FOCUS"
    by (simp add: frames_def)
  note r = focused_id_ignored_outside_focus [OF h, of "\<lambda>a b t. b" _ 1, THEN conjunct1]
  have s: "SCATTERED \<noteq> FOCUS" by simp
  show ?thesis by (rule conjI [OF s r [unfolded frames_def]])
qed

section \<open>Five seconds of forming the tree\<close>

lemma morph_run_replicate:
  "morph_run rate 1 (replicate n dl) p = 1 - (1 - p) * (1 - rate * dl) ^ n"
proof (induction n arbitrary: p)
  case 0
  then show ?case by simp
next
  case (Suc n)
  have "1 - lerp p 1 (rate * dl) = (1 - p) * (1 - rate * dl)"
    by (simp add: lerp_def algebra_simps)
  then show ?case using Suc.IH [of "lerp p 1 (rate * dl)"] by simp
qed

lemma decay_300: "(39 / 40 :: real) ^ 300 < 1 / 1000"
proof -
  define x :: real where "x = (39 / 40) ^ 30"
  have a: "x < 1 / 2" unfolding x_def by (simp add: power_divide)
  have x0: "0 \<le> x" unfolding x_def by simp
  have "x ^ 10 < (1 / 2) ^ 10" using a x0 by (intro power_strict_mono) simp_all
  also have "(1 / 2 :: real) ^ 10 < 1 / 1000" by (simp add: power_divide)
  finally have "x ^ 10 < 1 / 1000" .
  moreover have "x ^ 10 = (39 / 40) ^ 300" unfolding x_def by (simp add: power_mult [symmetric])
  ultimately show ?thesis by simp
qed

lemma length_generateOrnamentData [simp]:
  "length (generateOrnamentData n type pal rnd k) = n"
  by (simp add: generateOrnamentData_def)

lemma Ornaments_useMemo_lengths:
  "length (goldData (Ornaments_useMemo 600 rnd)) = 180"
  "length (ceramicData (Ornaments_useMemo 600 rnd)) = 240"
  "length (satinData (Ornaments_useMemo 600 rnd)) = 180"
  "length (boxData (Ornaments_useMemo 600 rnd)) = 90"
  by (simp_all add: Ornaments_useMemo_def Let_def)


lemma updateInstances_run_snoc:
  "updateInstances_run data tgt (frames @ [(time, delta)]) r
     = updateInstances (updateInstances_run data tgt frames r) data tgt time delta"
proof (induction frames arbitrary: r)
  case Nil
  then show ?case by simp
next
  case (Cons f frames)
  obtain t dl where f: "f = (t, dl)" by (cases f)
  show ?case using Cons.IH by (simp add: f)
qed

lemma updateInstances_run_length:
  "\<exists>m'. updateInstances_run data tgt frames (Some m) = Some m'
        \<and> length (instanceMatrix m') = length (instanceMatrix m)"
proof (induction frames arbitrary: m)
  case Nil
  then show ?case by simp
next
  case (Cons f frames)
  obtain t dl where f: "f = (t, dl)" by (cases f)
  obtain m1 where step: "updateInstances (Some m) data tgt t dl = Some m1"
    and len: "length (instanceMatrix m1) = length (instanceMatrix m)"
    by (simp add: updateInstances_Some fold_setMatrixAt_length)
  from Cons.IH [of m1] obtain m' where
    "updateInstances_run data tgt frames (Some m1) = Some m'"
    "length (instanceMatrix m') = length (instanceMatrix m1)" by blast
  then show ?case using len by (simp add: f step)
qed

lemma updateInstances_run_final:
  assumes len: "length (instanceMatrix m) = length data" and ne: "frames \<noteq> []"
  shows "\<exists>m' time. updateInstances_run data tgt frames (Some m) = Some m'
          \<and> morphValue m' = Some (morph_run 1.5 tgt (map snd frames) (morph0 m))
          \<and> length (instanceMatrix m') = length data
          \<and> (\<forall>i < length data. instanceMatrix m' ! i
                = instanceTransform (data ! i) i (morph_run 1.5 tgt (map snd frames) (morph0 m)) time)"
proof -
  obtain fs time delta where fr: "frames = fs @ [(time, delta)]"
    using ne by (metis rev_exhaust surj_pair)
  from updateInstances_run_length [of data tgt fs m] obtain m1 where
    m1: "updateInstances_run data tgt fs (Some m) = Some m1"
        "length (instanceMatrix m1) = length (instanceMatrix m)" by blast
  have "mesh_progress (Some m1) = Some (morph_run 1.5 tgt (map snd fs) (morph0 m))"
    using mesh_progress_run [of data tgt fs m] by (simp add: m1(1))
  then have p1: "morph0 m1 = morph_run 1.5 tgt (map snd fs) (morph0 m)"
    by (simp add: mesh_progress_def)
  define p where "p = lerp (morph0 m1) tgt (1.5 * delta)"
  have pe: "p = morph_run 1.5 tgt (map snd frames) (morph0 m)"
    by (simp add: p_def p1 fr morph_run_snoc)
  define m' where "m' = m1\<lparr> morphValue := Some p,
      instanceMatrix := fold (\<lambda>i ms. ms[i := instanceTransform (data ! i) i p time])
                             [0..<length data] (instanceMatrix m1) \<rparr>"
  have run: "updateInstances_run data tgt frames (Some m) = Some m'"
    by (simp add: fr updateInstances_run_snoc m1(1) updateInstances_Some m'_def p_def)
  have l': "length (instanceMatrix m') = length data"
    by (simp add: m'_def fold_setMatrixAt_length m1(2) len)
  have nth: "\<forall>i < length data. instanceMatrix m' ! i = instanceTransform (data ! i) i p time"
    using fold_setMatrixAt_nth [of _ "length data" "instanceMatrix m1"
        "\<lambda>i. instanceTransform (data ! i) i p time"]
    by (simp add: m'_def m1(2) len)
  have mv: "morphValue m' = Some p" by (simp add: m'_def)
  show ?thesis using run mv l' nth unfolding pe by blast
qed

lemma Ornaments_run_refs:
  "goldRef (Ornaments_run d st frames refs)
     = updateInstances_run (goldData d) (if st = TREE_SHAPE then 1 else 0) frames (goldRef refs)"
  "ceramicRef (Ornaments_run d st frames refs)
     = updateInstances_run (ceramicData d) (if st = TREE_SHAPE then 1 else 0) frames (ceramicRef refs)"
  "satinRef (Ornaments_run d st frames refs)
     = updateInstances_run (satinData d) (if st = TREE_SHAPE then 1 else 0) frames (satinRef refs)"
  "boxesRef (Ornaments_run d st frames refs)
     = updateInstances_run (boxData d) (if st = TREE_SHAPE then 1 else 0) frames (boxesRef refs)"
proof (induction frames arbitrary: refs)
  case Nil
  { case 1 show ?case by simp }
  { case 2 show ?case by simp }
  { case 3 show ?case by simp }
  { case 4 show ?case by simp }
next
  case (Cons f frames)
  obtain t dl where f: "f = (t, dl)" by (cases f)
  { case 1 show ?case using Cons.IH(1) by (simp add: f Ornaments_useFrame_def Let_def) }
  { case 2 show ?case using Cons.IH(2) by (simp add: f Ornaments_useFrame_def Let_def) }
  { case 3 show ?case using Cons.IH(3) by (simp add: f Ornaments_useFrame_def Let_def) }
  { case 4 show ?case using Cons.IH(4) by (simp add: f Ornaments_useFrame_def Let_def) }
qed


lemma abs_le_vlength:
  "\<bar>vx a\<bar> \<le> vlength a" "\<bar>vy a\<bar> \<le> vlength a" "\<bar>vz a\<bar> \<le> vlength a"
proof -
  have sq: "\<And>t::real. \<bar>t\<bar> = sqrt (t * t)" by simp
  have nn: "\<And>t::real. 0 \<le> t * t" by simp
  show "\<bar>vx a\<bar> \<le> vlength a"
    unfolding vlength_def sq [of "vx a"]
    using nn [of "vy a"] nn [of "vz a"] by (intro real_sqrt_le_mono) linarith
  show "\<bar>vy a\<bar> \<le> vlength a"
    unfolding vlength_def sq [of "vy a"]
    using nn [of "vx a"] nn [of "vz a"] by (intro real_sqrt_le_mono) linarith
  show "\<bar>vz a\<bar> \<le> vlength a"
    unfolding vlength_def sq [of "vz a"]
    using nn [of "vx a"] nn [of "vy a"] by (intro real_sqrt_le_mono) linarith
qed

lemma normalize_bounded:
  "\<bar>vx (normalize a)\<bar> \<le> 1" "\<bar>vy (normalize a)\<bar> \<le> 1" "\<bar>vz (normalize a)\<bar> \<le> 1"
proof -
  have l0: "0 \<le> vlength a" by (simp add: vlength_def)
  have q: "\<bar>t / (if vlength a = 0 then 1 else vlength a)\<bar> \<le> 1"
    if t: "\<bar>t\<bar> \<le> vlength a" for t :: real
  proof (cases "vlength a = 0")
    case True
    then have "t = 0" using t by simp
    then show ?thesis by simp
  next
    case False
    then have "0 < vlength a" using l0 by simp
    then show ?thesis using t False by (simp add: divide_le_eq)
  qed
  show "\<bar>vx (normalize a)\<bar> \<le> 1" using q [OF abs_le_vlength(1)] by (simp add: normalize_def Let_def)
  show "\<bar>vy (normalize a)\<bar> \<le> 1" using q [OF abs_le_vlength(2)] by (simp add: normalize_def Let_def)
  show "\<bar>vz (normalize a)\<bar> \<le> 1" using q [OF abs_le_vlength(3)] by (simp add: normalize_def Let_def)
qed

lemma abs_triple_le:
  fixes r a b :: real
  assumes "0 \<le> r" "r \<le> R" "\<bar>a\<bar> \<le> 1" "\<bar>b\<bar> \<le> 1"
  shows "\<bar>r * a * b\<bar> \<le> R"
proof -
  have "\<bar>r * a * b\<bar> = r * (\<bar>a\<bar> * \<bar>b\<bar>)" using assms(1) by (simp add: abs_mult)
  also have "\<bar>a\<bar> * \<bar>b\<bar> \<le> 1 * 1" using assms(3,4) by (intro mult_mono) simp_all
  then have "r * (\<bar>a\<bar> * \<bar>b\<bar>) \<le> r * 1" using assms(1) by (intro mult_left_mono) simp_all
  finally show ?thesis using assms(2) by simp
qed

lemma getScatterPoint_coords:
  assumes "0 \<le> radius" "0 \<le> w" "w < 1"
  shows "\<bar>vx (getScatterPoint radius u v w)\<bar> \<le> radius"
        "\<bar>vy (getScatterPoint radius u v w)\<bar> \<le> radius"
        "\<bar>vz (getScatterPoint radius u v w)\<bar> \<le> radius"
proof -
  have "vlength (getScatterPoint radius u v w) = root 3 w * radius"
    using assms by (intro getScatterPoint_vlength) simp_all
  moreover have "root 3 w \<le> root 3 1" using assms by (intro real_root_le_mono) simp_all
  then have "root 3 w * radius \<le> 1 * radius" using assms(1) by (intro mult_right_mono) simp_all
  ultimately have "vlength (getScatterPoint radius u v w) \<le> radius" by simp
  then show "\<bar>vx (getScatterPoint radius u v w)\<bar> \<le> radius"
        "\<bar>vy (getScatterPoint radius u v w)\<bar> \<le> radius"
        "\<bar>vz (getScatterPoint radius u v w)\<bar> \<le> radius"
    using abs_le_vlength [of "getScatterPoint radius u v w"] by linarith+
qed

lemma getTreePoint_coords:
  assumes "0 \<le> radius" "0 \<le> h" "h < 1" "0 \<le> s" "s < 1" "0 \<le> height"
  shows "\<bar>vx (getTreePoint height radius yOffset h s a)\<bar> \<le> radius"
        "\<bar>vz (getTreePoint height radius yOffset h s a)\<bar> \<le> radius"
        "yOffset \<le> vy (getTreePoint height radius yOffset h s a)"
        "vy (getTreePoint height radius yOffset h s a) \<le> yOffset + height"
proof -
  define q where "q = sqrt s"
  have "sqrt s \<le> sqrt 1" using assms by (intro real_sqrt_le_mono) simp
  then have q1: "q \<le> 1" by (simp add: q_def)
  have q0: "0 \<le> q" using assms by (simp add: q_def)
  define r where "r = radius * (1 - h) * (0.2 + 0.8 * q)"
  have f0: "0 \<le> 0.2 + 0.8 * q" and f1: "0.2 + 0.8 * q \<le> 1" using q0 q1 by simp_all
  have m0: "0 \<le> radius * (1 - h)" using assms by simp
  have m1: "radius * (1 - h) \<le> radius * 1" using assms by (intro mult_left_mono) simp_all
  have r0: "0 \<le> r" unfolding r_def using m0 f0 by (rule mult_nonneg_nonneg)
  have "r \<le> radius * (1 - h) * 1" unfolding r_def using f1 m0 by (rule mult_left_mono)
  then have r1: "r \<le> radius" using m1 by simp
  have x: "vx (getTreePoint height radius yOffset h s a) = r * 1 * cos (a * pi * 2)"
    by (simp add: getTreePoint_def Let_def r_def q_def)
  have z: "vz (getTreePoint height radius yOffset h s a) = r * 1 * sin (a * pi * 2)"
    by (simp add: getTreePoint_def Let_def r_def q_def)
  show "\<bar>vx (getTreePoint height radius yOffset h s a)\<bar> \<le> radius"
    unfolding x using r0 r1 by (intro abs_triple_le) simp_all
  show "\<bar>vz (getTreePoint height radius yOffset h s a)\<bar> \<le> radius"
    unfolding z using r0 r1 by (intro abs_triple_le) simp_all
  have y: "vy (getTreePoint height radius yOffset h s a) = h * height + yOffset"
    by (simp add: getTreePoint_def Let_def)
  have "0 \<le> h * height" using assms by simp
  then show "yOffset \<le> vy (getTreePoint height radius yOffset h s a)" by (simp add: y)
  have "h * height \<le> 1 * height" using assms by (intro mult_right_mono) simp_all
  then show "vy (getTreePoint height radius yOffset h s a) \<le> yOffset + height" by (simp add: y)
qed

lemma ornamentItem_bounds:
  assumes "\<forall>k. 0 \<le> rnd k \<and> rnd k < 1"
  shows "\<bar>vx (scatter (ornamentItem type pal rnd k))\<bar> \<le> 20"
        "\<bar>vy (scatter (ornamentItem type pal rnd k))\<bar> \<le> 20"
        "\<bar>vz (scatter (ornamentItem type pal rnd k))\<bar> \<le> 20"
        "\<bar>vx (tree (ornamentItem type pal rnd k))\<bar> \<le> 6"
        "\<bar>vy (tree (ornamentItem type pal rnd k))\<bar> \<le> 6"
        "\<bar>vz (tree (ornamentItem type pal rnd k))\<bar> \<le> 6"
proof -
  define t0 where "t0 = getTreePoint 12 5 (- 6) (rnd k) (rnd (k + 1)) (rnd (k + 2))"
  define nrm where "nrm = normalize (Vector3 (vx t0) 0 (vz t0))"
  have sc: "scatter (ornamentItem type pal rnd k)
              = getScatterPoint 20 (rnd (k + 3)) (rnd (k + 4)) (rnd (k + 5))"
    by (simp add: ornamentItem_def Let_def)
  have tr: "tree (ornamentItem type pal rnd k) = vadd t0 (multiplyScalar nrm 0.4)"
    by (simp add: ornamentItem_def Let_def t0_def nrm_def)
  show "\<bar>vx (scatter (ornamentItem type pal rnd k))\<bar> \<le> 20"
       "\<bar>vy (scatter (ornamentItem type pal rnd k))\<bar> \<le> 20"
       "\<bar>vz (scatter (ornamentItem type pal rnd k))\<bar> \<le> 20"
    unfolding sc using assms by (intro getScatterPoint_coords; simp)+
  have tb: "\<bar>vx t0\<bar> \<le> 5" "\<bar>vz t0\<bar> \<le> 5" "- 6 \<le> vy t0" "vy t0 \<le> - 6 + 12"
    unfolding t0_def using assms by (intro getTreePoint_coords; simp)+
  have nb: "\<bar>vx nrm\<bar> \<le> 1" "\<bar>vz nrm\<bar> \<le> 1" unfolding nrm_def by (rule normalize_bounded)+
  have ny: "vy nrm = 0" by (simp add: nrm_def normalize_def Let_def)
  show "\<bar>vx (tree (ornamentItem type pal rnd k))\<bar> \<le> 6"
    using tb(1) nb(1) by (simp add: tr vadd_def multiplyScalar_def)
  show "\<bar>vy (tree (ornamentItem type pal rnd k))\<bar> \<le> 6"
    using tb(3,4) ny by (simp add: tr vadd_def multiplyScalar_def)
  show "\<bar>vz (tree (ornamentItem type pal rnd k))\<bar> \<le> 6"
    using tb(2) nb(2) by (simp add: tr vadd_def multiplyScalar_def)
qed


lemma sqrt_square_self: "0 \<le> c \<Longrightarrow> sqrt (c * c) = c"
  by simp

lemma square_le_bound:
  fixes a B :: real
  assumes "\<bar>a\<bar> \<le> B"
  shows "a * a \<le> B * B"
proof -
  have "a * a = \<bar>a\<bar> * \<bar>a\<bar>" by simp
  also have "\<dots> \<le> B * B" using assms by (intro mult_mono) simp_all
  finally show ?thesis .
qed

lemma instance_near_tree:
  assumes q: "0 \<le> 1 - p" "1 - p < 1 / 1000"
    and bs: "\<bar>vx (scatter item)\<bar> \<le> 20" "\<bar>vy (scatter item)\<bar> \<le> 20" "\<bar>vz (scatter item)\<bar> \<le> 20"
    and bt: "\<bar>vx (tree item)\<bar> \<le> 6" "\<bar>vy (tree item)\<bar> \<le> 6" "\<bar>vz (tree item)\<bar> \<le> 6"
  shows "distanceTo (position (instanceTransform item i p time)) (tree item) < 0.05"
proof -
  define q where "q = 1 - p"
  define c1 where "c1 = cos (time * speed item * 0.5 + real i)"
  define c2 where "c2 = sin (time * speed item + real i)"
  define P where "P = position (instanceTransform item i p time)"
  define dx where "dx = vx P - vx (tree item)"
  define dy where "dy = vy P - vy (tree item)"
  define dz where "dz = vz P - vz (tree item)"
  have q0: "0 \<le> q" and q1: "q < 1 / 1000" using q by (simp_all add: q_def)
  have c1b: "\<bar>c1\<bar> \<le> 1" and c2b: "\<bar>c2\<bar> \<le> 1" by (simp_all add: c1_def c2_def)
  have ex: "dx = q * (vx (scatter item) - vx (tree item) + c1 * 0.5)"
    by (simp add: dx_def P_def instanceTransform_def Let_def lerpVectors_def q_def c1_def algebra_simps)
  have ey: "dy = q * (vy (scatter item) - vy (tree item) + c2 * 0.5)"
    by (simp add: dy_def P_def instanceTransform_def Let_def lerpVectors_def q_def c2_def algebra_simps)
  have ez: "dz = q * (vz (scatter item) - vz (tree item))"
    by (simp add: dz_def P_def instanceTransform_def Let_def lerpVectors_def q_def algebra_simps)
  have ix: "\<bar>vx (scatter item) - vx (tree item) + c1 * 0.5\<bar> \<le> 27" using bs(1) bt(1) c1b by linarith
  have iy: "\<bar>vy (scatter item) - vy (tree item) + c2 * 0.5\<bar> \<le> 27" using bs(2) bt(2) c2b by linarith
  have iz: "\<bar>vz (scatter item) - vz (tree item)\<bar> \<le> 27" using bs(3) bt(3) by linarith
  have scale_le: "\<bar>q * t\<bar> \<le> q * 27" if "\<bar>t\<bar> \<le> 27" for t :: real
  proof -
    have "\<bar>q * t\<bar> = q * \<bar>t\<bar>" using q0 by (simp add: abs_mult)
    also have "\<dots> \<le> q * 27" using that q0 by (intro mult_left_mono) simp_all
    finally show ?thesis .
  qed
  define B where "B = q * 27"
  have B0: "0 \<le> B" and B1: "B < 27 / 1000" using q0 q1 by (simp_all add: B_def)
  have ax: "\<bar>dx\<bar> \<le> B" unfolding ex B_def using ix by (rule scale_le)
  have ay: "\<bar>dy\<bar> \<le> B" unfolding ey B_def using iy by (rule scale_le)
  have az: "\<bar>dz\<bar> \<le> B" unfolding ez B_def using iz by (rule scale_le)
  have BB: "B * B < (27 / 1000) * (27 / 1000)"
    using B0 B1 by (intro mult_strict_mono') simp_all
  have "dx * dx + dy * dy + dz * dz \<le> 3 * (B * B)"
    using square_le_bound [OF ax] square_le_bound [OF ay] square_le_bound [OF az] by linarith
  also have "\<dots> < (5 / 100) * (5 / 100)" using BB by simp
  finally have "sqrt (dx * dx + dy * dy + dz * dz) < sqrt ((5 / 100) * (5 / 100))"
    by (rule real_sqrt_less_mono)
  also have "sqrt ((5 / 100) * (5 / 100)) = (5 / 100 :: real)"
    by (rule sqrt_square_self) simp
  finally show ?thesis by (simp add: distanceTo_def dx_def dy_def dz_def P_def)
qed

lemma map_const_frames: "map snd (map (\<lambda>t. (t, c)) ts) = replicate (length ts) c"
  by (induction ts) simp_all

lemma group_settles:
  assumes rnd: "\<forall>k. 0 \<le> rnd k \<and> rnd k < 1" and n: "length ts = 300"
    and data: "data = generateOrnamentData cnt type pal rnd k"
  shows "settled (updateInstances_run data 1 (map (\<lambda>t. (t, 1 / 60)) ts) (Some (newMesh (length data)))) data"
proof -
  define frames :: "(real \<times> real) list" where "frames = map (\<lambda>t. (t, 1 / 60)) ts"
  have ne: "frames \<noteq> []" using n by (auto simp: frames_def)
  have len: "length (instanceMatrix (newMesh (length data))) = length data" by (simp add: newMesh_def)
  have m0: "morph0 (newMesh (length data)) = 0" by (simp add: morph0_def newMesh_def)
  define p where "p = morph_run 1.5 1 (map snd frames) 0"
  have "p = 1 - (1 - 0) * (1 - 1.5 * (1 / 60)) ^ 300"
    unfolding p_def frames_def map_const_frames n by (rule morph_run_replicate)
  then have pe: "1 - p = (39 / 40) ^ 300" by simp
  have q: "0 \<le> 1 - p" "1 - p < 1 / 1000" unfolding pe using decay_300 by simp_all
  from updateInstances_run_final [OF len ne, of 1] obtain m' time where
    run: "updateInstances_run data 1 frames (Some (newMesh (length data))) = Some m'"
    and mv: "morphValue m' = Some p"
    and l': "length (instanceMatrix m') = length data"
    and nth: "\<forall>i < length data. instanceMatrix m' ! i = instanceTransform (data ! i) i p time"
    unfolding m0 p_def by blast
  have near: "distanceTo (position (instanceMatrix m' ! i)) (tree (data ! i)) < 0.05"
    if i: "i < length data" for i
  proof -
    have di: "data ! i = ornamentItem type pal rnd (k + 11 * i)"
      using i by (simp add: data generateOrnamentData_def)
    show ?thesis
      using nth i instance_near_tree [OF q, of "data ! i" i time]
        ornamentItem_bounds [OF rnd, of type pal "k + 11 * i"]
      by (simp add: di)
  qed
  have all: "list_all (\<lambda>(tr, item). distanceTo (position tr) (tree item) < 0.05)
               (zip (instanceMatrix m') data)"
    using near l' by (simp add: list_all_length)
  have "0.95 < p" "p \<le> 1" using q by simp_all
  then show ?thesis
    using all l' by (simp add: settled_def run [unfolded frames_def] mv)
qed


lemma instanceTransform_at_one: "position (instanceTransform item i 1 time) = tree item"
  by (simp add: instanceTransform_def Let_def lerpVectors_def)

text \<open>
  C4.  Mount \<open>Ornaments\<close> with \<open>count = 600\<close> (any random draws in \<open>[0, 1)\<close>; the four
  groups hold 180, 240, 180 and 90 instances) and run 300 frames with delta 1/60 in
  mode \<open>TREE_SHAPE\<close>, at any elapsed times.  Then every group has morph progress above
  0.95 and every instance is drawn less than 0.05 scene units from its \<open>tree\<close>
  position, idle motion included.  At progress 1 the idle motion vanishes: the drawn
  position is the \<open>tree\<close> position itself.
\<close>

theorem ornaments_settle_on_tree:
  assumes "\<forall>k. 0 \<le> rnd k \<and> rnd k < 1" and "length ts = 300"
  shows "(let d = Ornaments_useMemo 600 rnd;
              refs = Ornaments_run d TREE_SHAPE (map (\<lambda>t. (t, 1 / 60)) ts) (Ornaments_mount d)
          in settled (goldRef refs) (goldData d) \<and> settled (ceramicRef refs) (ceramicData d)
           \<and> settled (satinRef refs) (satinData d) \<and> settled (boxesRef refs) (boxData d)
           \<and> length (goldData d) = 180 \<and> length (ceramicData d) = 240
           \<and> length (satinData d) = 180 \<and> length (boxData d) = 90)
       \<and> (\<forall>item i time. position (instanceTransform item i 1 time) = tree item)"
proof -
  define d where "d = Ornaments_useMemo 600 rnd"
  define refs where "refs = Ornaments_run d TREE_SHAPE (map (\<lambda>t. (t, 1 / 60)) ts) (Ornaments_mount d)"
  have g: "\<exists>cnt type pal k. goldData d = generateOrnamentData cnt type pal rnd k"
    and c: "\<exists>cnt type pal k. ceramicData d = generateOrnamentData cnt type pal rnd k"
    and s: "\<exists>cnt type pal k. satinData d = generateOrnamentData cnt type pal rnd k"
    and b: "\<exists>cnt type pal k. boxData d = generateOrnamentData cnt type pal rnd k"
    unfolding d_def Ornaments_useMemo_def Let_def by (simp; blast)+
  have "settled (goldRef refs) (goldData d)"
    using g group_settles [OF assms, of "goldData d"]
    by (auto simp: refs_def Ornaments_run_refs Ornaments_mount_def)
  moreover have "settled (ceramicRef refs) (ceramicData d)"
    using c group_settles [OF assms, of "ceramicData d"]
    by (auto simp: refs_def Ornaments_run_refs Ornaments_mount_def)
  moreover have "settled (satinRef refs) (satinData d)"
    using s group_settles [OF assms, of "satinData d"]
    by (auto simp: refs_def Ornaments_run_refs Ornaments_mount_def)
  moreover have "settled (boxesRef refs) (boxData d)"
    using b group_settles [OF assms, of "boxData d"]
    by (auto simp: refs_def Ornaments_run_refs Ornaments_mount_def)
  moreover have "length (goldData d) = 180" "length (ceramicData d) = 240"
    "length (satinData d) = 180" "length (boxData d) = 90"
    unfolding d_def by (rule Ornaments_useMemo_lengths)+
  ultimately show ?thesis
    unfolding Let_def d_def [symmetric] refs_def [symmetric]
    using instanceTransform_at_one by blast
qed

theorem ornaments_settle_on_tree_witness:
  "(\<forall>k::nat. (0::real) \<le> 1 / 2 \<and> (1 / 2 :: real) < 1) \<and> length (replicate 300 (0::real)) = 300
   \<and> (let d = Ornaments_useMemo 600 (\<lambda>k. 1 / 2);
           refs = Ornaments_run d TREE_SHAPE (map (\<lambda>t. (t, 1 / 60)) (replicate 300 0)) (Ornaments_mount d)
       in settled (goldRef refs) (goldData d) \<and> settled (ceramicRef refs) (ceramicData d)
        \<and> settled (satinRef refs) (satinData d) \<and> settled (boxesRef refs) (boxData d)
        \<and> length (goldData d) = 180 \<and> length (ceramicData d) = 240
        \<and> length (satinData d) = 180 \<and> length (boxData d) = 90)"
proof -
  have h1: "\<forall>k::nat. (0::real) \<le> 1 / 2 \<and> (1 / 2 :: real) < 1" by simp
  have h2: "length (replicate 300 (0::real)) = 300" by simp
  note r = ornaments_settle_on_tree [of "\<lambda>k. 1 / 2" "replicate 300 0", OF h1 h2, THEN conjunct1]
  show ?thesis by (rule conjI [OF h1 conjI [OF h2 r]])
qed

end
